theory Spec2Isabelle
  imports Complex_Main "HOL-Library.Product_Lexorder"
begin

section \<open>Python values\<close>

text \<open>
  A Python \<open>str\<close> is a sequence of Unicode code points; it is modelled as a list of
  natural numbers. ASCII literals are written through \<open>ustr\<close>, other literals as the
  list of their code points.
\<close>

type_synonym ustring = "nat list"

definition ustr :: "string \<Rightarrow> ustring" where
  "ustr s = map of_char s"

text \<open>\<open>str.isspace\<close>: the code points Python treats as whitespace (used by \<open>str.strip()\<close>).\<close>

definition py_isspace :: "nat \<Rightarrow> bool" where
  "py_isspace c = (c \<in> set [9, 10, 11, 12, 13, 28, 29, 30, 31, 32, 133, 160, 5760,
     8192, 8193, 8194, 8195, 8196, 8197, 8198, 8199, 8200, 8201, 8202,
     8232, 8233, 8239, 8287, 12288])"

definition py_strip :: "ustring \<Rightarrow> ustring" where
  "py_strip s = rev (dropWhile py_isspace (rev (dropWhile py_isspace s)))"

section \<open>Garbled keyword detection (routes\_gateway\_ctx.py)\<close>

definition QMARK :: nat where
  "QMARK = 63"

text \<open>The separator characters: space, comma, fullwidth comma, semicolon, fullwidth semicolon,
  bar, slash, tab, CR, LF.\<close>

definition kw_separators :: "nat list" where
  "kw_separators = [32, 44, 65292, 59, 65307, 124, 47, 9, 13, 10]"

text \<open>\<open>_looks_garbled_keyword\<close>. The float quotient \<open>q / total\<close> is the exact rational.\<close>

definition looks_garbled_keyword :: "ustring \<Rightarrow> bool" where
  "looks_garbled_keyword keyword =
     (let kw = py_strip keyword in
      if kw = [] then False
      else let q = count_list kw QMARK in
        if q = 0 then False
        else let total = length (filter (\<lambda>ch. ch \<notin> set kw_separators) kw) in
          if total \<le> 0 then True
          else (of_nat q / of_nat total :: rat) \<ge> 4 / 10)"

text \<open>The detector as the specification words it: the string is non-empty and the ratio of
  question marks to non-separator characters (which exists) is at least 0.4.\<close>

definition garbled_ratio_spec :: "ustring \<Rightarrow> bool" where
  "garbled_ratio_spec s =
     (s \<noteq> [] \<and> 0 < length (filter (\<lambda>ch. ch \<notin> set kw_separators) s) \<and>
      (of_nat (count_list s QMARK)
        / of_nat (length (filter (\<lambda>ch. ch \<notin> set kw_separators) s)) :: rat) \<ge> 2 / 5)"

section \<open>Mojibake repair (summarizer.py)\<close>

definition count_cjk_chars :: "ustring \<Rightarrow> nat" where
  "count_cjk_chars s = length (filter (\<lambda>ch. 19968 \<le> ch \<and> ch \<le> 40959) s)"

text \<open>\<open>_strip_ctrl\<close> removes the C1 control characters U+0080..U+009F.\<close>

definition strip_ctrl :: "ustring \<Rightarrow> ustring" where
  "strip_ctrl s = filter (\<lambda>ch. \<not> (128 \<le> ch \<and> ch \<le> 159)) s"

text \<open>The markers of \<open>_mojibake_score\<close>: U+00C3, U+00C2, U+00E6, U+00E4, U+00E5, U+00E7,
  U+00F0, U+0085, U+009D, U+009F.\<close>

definition mojibake_markers :: "nat list" where
  "mojibake_markers = [195, 194, 230, 228, 229, 231, 240, 133, 157, 159]"

definition mojibake_score :: "ustring \<Rightarrow> nat" where
  "mojibake_score text =
     (if text = [] then 0 else sum_list (map (count_list text) mojibake_markers))"

definition ctrl_char_count :: "ustring \<Rightarrow> nat" where
  "ctrl_char_count text = length (filter (\<lambda>ch. 128 \<le> ch \<and> ch \<le> 159) text)"

text \<open>\<open>_bad_latin_run_count\<close>: the loop state is the pair \<open>(run_count, in_run)\<close>.\<close>

definition bad_latin_chars :: "nat list" where
  "bad_latin_chars = [230, 229, 231, 195, 194]"

definition bad_latin_step :: "nat \<Rightarrow> nat \<times> bool \<Rightarrow> nat \<times> bool" where
  "bad_latin_step ch st =
     (case st of (run_count, in_run) \<Rightarrow>
        if ch \<in> set bad_latin_chars
        then (if \<not> in_run then (run_count + 1, True) else (run_count, in_run))
        else (run_count, False))"

definition bad_latin_run_count :: "ustring \<Rightarrow> nat" where
  "bad_latin_run_count text = fst (fold bad_latin_step text (0, False))"

definition looks_mojibake_text :: "ustring \<Rightarrow> bool" where
  "looks_mojibake_text text = (mojibake_score text > 0 \<or> ctrl_char_count text > 0)"

text \<open>
  The codecs of the Python runtime are parameters: \<open>encode src s\<close> is
  \<open>s.encode(src, errors="strict")\<close> and \<open>decode_utf8 strict b\<close> is
  \<open>b.decode("utf-8", errors=...)\<close>; \<open>None\<close> stands for the exception that
  \<open>_try_recode\<close> catches.
\<close>

datatype codec = Latin1 | Cp1252

record codecs =
  encode :: "codec \<Rightarrow> ustring \<Rightarrow> nat list option"
  decode_utf8 :: "bool \<Rightarrow> nat list \<Rightarrow> ustring option"

fun first_decoded :: "ustring option list \<Rightarrow> ustring option" where
  "first_decoded [] = None"
| "first_decoded (Some t # rest) = Some (strip_ctrl t)"
| "first_decoded (None # rest) = first_decoded rest"

definition try_recode :: "codecs \<Rightarrow> ustring \<Rightarrow> codec \<Rightarrow> ustring option" where
  "try_recode E s src =
     (let byte_candidates = List.map_filter (encode E src) [s, strip_ctrl s]
      in first_decoded
           (concat (map (\<lambda>b. [decode_utf8 E True b, decode_utf8 E False b]) byte_candidates)))"

text \<open>The nested function \<open>metrics\<close> followed by \<open>ordering_key\<close>; U+FFFD is the
  replacement character.\<close>

definition ordering_key :: "ustring \<Rightarrow> int \<times> int \<times> int \<times> int \<times> int" where
  "ordering_key s =
     (let cjk_count = int (count_cjk_chars s);
          mojibake_markers = int (mojibake_score s);
          replacement_count = int (count_list s 65533);
          ctrl_count = int (ctrl_char_count s);
          bad_latin_runs = int (bad_latin_run_count s)
      in (cjk_count, - mojibake_markers, - (ctrl_count + replacement_count),
          - bad_latin_runs, - replacement_count))"

text \<open>
  One round of the candidate search. The Python code keeps the candidates in a \<open>set\<close>; the
  model keeps them in a duplicate-free list and iterates in insertion order.
\<close>

definition new_candidates :: "codecs \<Rightarrow> ustring list \<Rightarrow> ustring list" where
  "new_candidates E candidates =
     remdups (concat (map (\<lambda>seed. concat (map (\<lambda>src.
        (case try_recode E seed src of
           None \<Rightarrow> []
         | Some candidate \<Rightarrow>
             if candidate \<noteq> [] \<and> candidate \<notin> set candidates then [candidate] else []))
        [Latin1, Cp1252])) candidates))"

fun repair_rounds :: "codecs \<Rightarrow> nat \<Rightarrow> ustring list \<Rightarrow> ustring list" where
  "repair_rounds E 0 candidates = candidates"
| "repair_rounds E (Suc n) candidates =
     (let next_round = new_candidates E candidates
      in if next_round = [] then candidates
         else repair_rounds E n (candidates @ next_round))"

definition select_step :: "ustring \<Rightarrow> ustring \<Rightarrow> ustring" where
  "select_step candidate best =
     (let cleaned = strip_ctrl candidate
      in if ordering_key cleaned > ordering_key best then cleaned else best)"

definition bad_markers :: "nat list" where
  "bad_markers = [195, 194, 230, 228, 229, 231, 240]"

text \<open>\<open>_maybe_repair_mojibake_text\<close>; the debug events it pushes are not part of its result.\<close>

definition maybe_repair_mojibake_text :: "codecs \<Rightarrow> ustring \<Rightarrow> ustring" where
  "maybe_repair_mojibake_text E text =
     (if text = [] then text
      else if count_cjk_chars text \<ge> 2 \<and> \<not> (\<exists>m \<in> set bad_markers. m \<in> set text)
      then strip_ctrl text
      else
        let original_score = mojibake_score text;
            max_rounds = 2 + (if original_score > 2 then 1 else 0)
                           + (if original_score > 5 then 1 else 0);
            candidates = repair_rounds E max_rounds [text];
            best = fold select_step candidates (strip_ctrl text)
        in if \<not> looks_mojibake_text text then strip_ctrl text
           else strip_ctrl best)"

text \<open>A small codec table for evaluating examples: it handles the ASCII range only.\<close>

definition ascii_codecs :: codecs where
  "ascii_codecs =
     \<lparr> encode = (\<lambda>src s. if \<forall>c \<in> set s. c < 128 then Some s else None),
       decode_utf8 = (\<lambda>strict b.
          if \<forall>c \<in> set b. c < 128 then Some b
          else if strict then None
          else Some (map (\<lambda>c. if c < 128 then c else 65533) b)) \<rparr>"

section \<open>Dynamic values and exceptions\<close>

text \<open>
  Decoded JSON documents, as Python holds them: \<open>None\<close>, booleans, integers, floats (exact
  rationals in the model), strings, lists and dictionaries (association lists in insertion
  order, keys distinct).
\<close>

datatype json =
    JNull
  | JBool bool
  | JInt int
  | JNum rat
  | JStr ustring
  | JArr "json list"
  | JObj "(ustring \<times> json) list"

text \<open>A raised exception, with the text that \<open>str(e)\<close> gives.\<close>

datatype exn =
    AttributeError ustring
  | TypeError ustring
  | ValueError ustring
  | RuntimeError ustring
  | HTTPError ustring

fun exn_text :: "exn \<Rightarrow> ustring" where
  "exn_text (AttributeError m) = m"
| "exn_text (TypeError m) = m"
| "exn_text (ValueError m) = m"
| "exn_text (RuntimeError m) = m"
| "exn_text (HTTPError m) = m"

fun py_type_name :: "json \<Rightarrow> ustring" where
  "py_type_name JNull = ustr ''NoneType''"
| "py_type_name (JBool b) = ustr ''bool''"
| "py_type_name (JInt i) = ustr ''int''"
| "py_type_name (JNum r) = ustr ''float''"
| "py_type_name (JStr s) = ustr ''str''"
| "py_type_name (JArr xs) = ustr ''list''"
| "py_type_name (JObj kvs) = ustr ''dict''"

definition no_attribute :: "json \<Rightarrow> string \<Rightarrow> exn" where
  "no_attribute v a =
     AttributeError (ustr [CHR 0x27] @ py_type_name v @ ustr '' object has no attribute ''
                     @ ustr [CHR 0x27] @ ustr a @ ustr [CHR 0x27])"

text \<open>Truth value of an object, \<open>a or b\<close>, \<open>d.get(k)\<close>.\<close>

fun truthy :: "json \<Rightarrow> bool" where
  "truthy JNull = False"
| "truthy (JBool b) = b"
| "truthy (JInt i) = (i \<noteq> 0)"
| "truthy (JNum r) = (r \<noteq> 0)"
| "truthy (JStr s) = (s \<noteq> [])"
| "truthy (JArr xs) = (xs \<noteq> [])"
| "truthy (JObj kvs) = (kvs \<noteq> [])"

definition py_or :: "json \<Rightarrow> json \<Rightarrow> json" where
  "py_or a b = (if truthy a then a else b)"

definition dget :: "(ustring \<times> json) list \<Rightarrow> string \<Rightarrow> json" where
  "dget d k = (case map_of d (ustr k) of None \<Rightarrow> JNull | Some v \<Rightarrow> v)"

text \<open>\<open>v.strip()\<close> on a dynamic value: only a string has the method.\<close>

fun strip_of :: "json \<Rightarrow> exn + ustring" where
  "strip_of (JStr s) = Inr (py_strip s)"
| "strip_of v = Inl (no_attribute v ''strip'')"

section \<open>Tool-thread sanitization (routes\_openai\_proxy.py)\<close>

text \<open>\<open>strip_last_assistant_tool_fields\<close>: walk the cleaned list from its end; the first
  message whose role equals \<open>assistant\<close> loses its \<open>tool_calls\<close> and
  \<open>function_call\<close> keys.\<close>

fun strip_first_assistant :: "json list \<Rightarrow> json list" where
  "strip_first_assistant [] = []"
| "strip_first_assistant (JObj d # rest) =
     (if dget d ''role'' = JStr (ustr ''assistant'')
      then JObj (filter (\<lambda>kv. fst kv \<noteq> ustr ''tool_calls'' \<and> fst kv \<noteq> ustr ''function_call'') d)
             # rest
      else JObj d # strip_first_assistant rest)"
| "strip_first_assistant (m # rest) = m # strip_first_assistant rest"

definition strip_last_assistant_tool_fields :: "json list \<Rightarrow> json list" where
  "strip_last_assistant_tool_fields cleaned = rev (strip_first_assistant (rev cleaned))"

text \<open>The ids collected from the \<open>tool_calls\<close> of an assistant message.\<close>

fun collect_call_ids :: "json list \<Rightarrow> exn + ustring list" where
  "collect_call_ids [] = Inr []"
| "collect_call_ids (JObj t # ts) =
     (case strip_of (py_or (dget t ''id'') (JStr [])) of
        Inl e \<Rightarrow> Inl e
      | Inr i \<Rightarrow>
          (case collect_call_ids ts of
             Inl e \<Rightarrow> Inl e
           | Inr ids \<Rightarrow> Inr (if i \<noteq> [] then i # ids else ids)))"
| "collect_call_ids (t # ts) = collect_call_ids ts"

text \<open>One iteration of the loop over \<open>messages\<close>; the state is \<open>(cleaned, pending)\<close>.\<close>

definition sanitize_step ::
  "json \<Rightarrow> json list \<times> ustring set \<Rightarrow> exn + (json list \<times> ustring set)" where
  "sanitize_step m st =
     (case st of (cleaned, pending) \<Rightarrow>
      (case m of
         JObj d \<Rightarrow>
           (case strip_of (py_or (dget d ''role'') (JStr [])) of
              Inl e \<Rightarrow> Inl e
            | Inr role \<Rightarrow>
                if role = ustr ''tool'' then
                  (case strip_of (py_or (dget d ''tool_call_id'') (JStr [])) of
                     Inl e \<Rightarrow> Inl e
                   | Inr tcid \<Rightarrow>
                       if tcid \<noteq> [] \<and> tcid \<in> pending
                       then Inr (cleaned @ [m], pending - {tcid})
                       else Inr (cleaned, pending))
                else
                  let cleaned1 = (if pending \<noteq> {}
                                  then strip_last_assistant_tool_fields cleaned else cleaned);
                      pending1 = (if pending \<noteq> {} then {} else pending)
                  in
                  if role = ustr ''assistant'' \<and> dget d ''tool_calls'' \<noteq> JNull then
                    (case (case py_or (dget d ''tool_calls'') (JArr []) of
                             JArr tc \<Rightarrow> collect_call_ids tc
                           | _ \<Rightarrow> Inr []) of
                       Inl e \<Rightarrow> Inl e
                     | Inr ids \<Rightarrow> Inr (cleaned1 @ [m], set ids))
                  else if role = ustr ''assistant'' \<and> dget d ''function_call'' \<noteq> JNull then
                    (let content = dget d ''content'' in
                     if content = JNull
                        \<or> (case content of JStr c \<Rightarrow> py_strip c = [] | _ \<Rightarrow> False)
                     then Inr (cleaned1, pending1)
                     else Inr (cleaned1 @ [m], pending1))
                  else Inr (cleaned1 @ [m], pending1))
       | _ \<Rightarrow> Inr (cleaned, pending)))"

fun sanitize_loop ::
  "json list \<Rightarrow> json list \<times> ustring set \<Rightarrow> exn + (json list \<times> ustring set)" where
  "sanitize_loop [] st = Inr st"
| "sanitize_loop (m # ms) st =
     (case sanitize_step m st of
        Inl e \<Rightarrow> Inl e
      | Inr st' \<Rightarrow> sanitize_loop ms st')"

text \<open>\<open>_sanitize_messages_for_upstream\<close>.\<close>

definition sanitize_messages_for_upstream :: "json \<Rightarrow> exn + json list" where
  "sanitize_messages_for_upstream messages =
     (case messages of
        JArr ms \<Rightarrow>
          (case sanitize_loop ms ([], {}) of
             Inl e \<Rightarrow> Inl e
           | Inr (cleaned, pending) \<Rightarrow>
               Inr (if pending \<noteq> {} then strip_last_assistant_tool_fields cleaned
                    else cleaned))
      | _ \<Rightarrow> Inr [])"

text \<open>
  The property the specification asks of the sanitized list: every message whose role is
  \<open>tool\<close> carries a \<open>tool_call_id\<close> that occurs among the ids of the
  \<open>tool_calls\<close> of the nearest preceding assistant message. The second argument is the
  id list of that assistant message, \<open>None\<close> while there is none.
\<close>

fun call_ids_of :: "json list \<Rightarrow> json list" where
  "call_ids_of [] = []"
| "call_ids_of (JObj t # ts) = dget t ''id'' # call_ids_of ts"
| "call_ids_of (t # ts) = call_ids_of ts"

fun tool_threads_matched :: "json list \<Rightarrow> json list option \<Rightarrow> bool" where
  "tool_threads_matched [] prev = True"
| "tool_threads_matched (JObj d # ms) prev =
     (if dget d ''role'' = JStr (ustr ''tool'') then
        (case prev of None \<Rightarrow> False | Some ids \<Rightarrow> dget d ''tool_call_id'' \<in> set ids)
        \<and> tool_threads_matched ms prev
      else if dget d ''role'' = JStr (ustr ''assistant'') then
        tool_threads_matched ms
          (Some (case dget d ''tool_calls'' of JArr tc \<Rightarrow> call_ids_of tc | _ \<Rightarrow> []))
      else tool_threads_matched ms prev)"
| "tool_threads_matched (m # ms) prev = tool_threads_matched ms prev"

section \<open>Summary sanitization (summarizer.py)\<close>

text \<open>\<open>p in s\<close> on strings, \<open>s.replace(old, new)\<close> for a non-empty \<open>old\<close> (left to
  right, non-overlapping) and \<open>s.strip(chars)\<close>.\<close>

fun contains_str :: "ustring \<Rightarrow> ustring \<Rightarrow> bool" where
  "contains_str p [] = (p = [])"
| "contains_str p (c # cs) = (take (length p) (c # cs) = p \<or> contains_str p cs)"

fun py_replace :: "ustring \<Rightarrow> ustring \<Rightarrow> ustring \<Rightarrow> ustring" where
  "py_replace old new [] = []"
| "py_replace old new (c # cs) =
     (if old \<noteq> [] \<and> take (length old) (c # cs) = old
      then new @ py_replace old new (drop (length old - 1) cs)
      else c # py_replace old new cs)"

definition py_strip_chars :: "ustring \<Rightarrow> ustring \<Rightarrow> ustring" where
  "py_strip_chars chars s =
     rev (dropWhile (\<lambda>c. c \<in> set chars) (rev (dropWhile (\<lambda>c. c \<in> set chars) s)))"

text \<open>\<open>str(v)\<close>: a string is itself; the text Python prints for any other value is given by
  the parameter \<open>repr\<close>.\<close>

definition py_str :: "(json \<Rightarrow> ustring) \<Rightarrow> json \<Rightarrow> ustring" where
  "py_str repr v = (case v of JStr s \<Rightarrow> s | _ \<Rightarrow> repr v)"

text \<open>\<open>d[k] = v\<close> and \<open>d.setdefault(k, v)\<close> on a dictionary.\<close>

definition dset_u :: "ustring \<Rightarrow> json \<Rightarrow> (ustring \<times> json) list \<Rightarrow> (ustring \<times> json) list" where
  "dset_u k v d =
     (if k \<in> fst ` set d
      then map (\<lambda>kv. if fst kv = k then (fst kv, v) else kv) d
      else d @ [(k, v)])"

definition dset :: "string \<Rightarrow> json \<Rightarrow> (ustring \<times> json) list \<Rightarrow> (ustring \<times> json) list" where
  "dset k v d = dset_u (ustr k) v d"

definition setdefault :: "string \<Rightarrow> json \<Rightarrow> (ustring \<times> json) list \<Rightarrow> (ustring \<times> json) list" where
  "setdefault k v d = (if ustr k \<in> fst ` set d then d else d @ [(ustr k, v)])"

text \<open>\<open>p in v\<close> for a string \<open>p\<close> and a dynamic value \<open>v\<close>: substring test on a string,
  membership in a list, key test on a dictionary, \<open>TypeError\<close> otherwise.\<close>

fun py_in :: "ustring \<Rightarrow> json \<Rightarrow> exn + bool" where
  "py_in p (JStr s) = Inr (contains_str p s)"
| "py_in p (JArr xs) = Inr (JStr p \<in> set xs)"
| "py_in p (JObj kvs) = Inr (p \<in> fst ` set kvs)"
| "py_in p v =
     Inl (TypeError (ustr ''argument of type '' @ ustr [CHR 0x27] @ py_type_name v
                     @ ustr [CHR 0x27] @ ustr '' is not iterable''))"

definition HELP_SEEKING_HINTS :: "ustring list" where
  "HELP_SEEKING_HINTS =
     [[20511, 38065],
      [20511, 25105],
      [36716, 36134],
      [25171, 38065],
      [36164, 21161],
      [36190, 21161],
      [32473, 25105, 38065],
      [27714, 21161],
      [25937, 27982],
      [33021, 19981, 33021, 32473],
      [33021, 21542, 32473],
      [24110, 25105, 20986],
      [24110, 25105, 20184],
      [20320, 20986, 38065],
      [24110, 25105, 36716],
      [32473, 28857, 38065]]"

definition has_help_seeking :: "ustring \<Rightarrow> bool" where
  "has_help_seeking transcript = (\<exists>h \<in> set HELP_SEEKING_HINTS. contains_str h transcript)"

definition default_summary_schema :: json where
  "default_summary_schema =
     JObj [(ustr ''goal'', JStr 
             [24403, 21069, 22312, 25512, 36827, 20160, 20040]),
           (ustr ''state'', JStr 
             [36827, 24230, 21040, 21738, 47, 29616, 22312, 20160, 20040, 29366, 24577]),
           (ustr ''open_loops'', JArr [JStr 
             [26410, 23436, 25104, 20107, 39033, 47, 24453, 20915, 23450, 28857]]),
           (ustr ''constraints'', JArr [JStr 
             [30828, 32422, 26463, 65306, 24037, 20855, 47, 26102, 38388, 47, 36793, 30028, 47,
              35201, 27714]]),
           (ustr ''tone_notes'', JArr [JStr 
             [35821, 27668, 19982, 20114, 21160, 22522, 35843, 25552, 31034, 65288, 24456,
              30701, 65289]])]"

definition bad_goal_phrases :: "ustring list" where
  "bad_goal_phrases =
     [[23547, 27714, 32463, 27982, 19978, 30340, 24110, 21161],
      [23547, 27714, 32463, 27982, 24110, 21161],
      [35831, 27714, 32463, 27982, 24110, 21161],
      [27714, 21161, 23545, 26041],
      [35753, 23545, 26041, 20986, 38065]]"

definition bad_state_phrases :: "ustring list" where
  "bad_state_phrases =
     [[24895, 24847, 25552, 20379, 24110, 21161],
      [34920, 31034, 24895, 24847, 25552, 20379, 24110, 21161],
      [21516, 24847, 25552, 20379, 24110, 21161],
      [24050, 25552, 20379, 24110, 21161],
      [31572, 24212, 25552, 20379, 24110, 21161]]"

text \<open>The characters stripped after a removal: fullwidth comma, ideographic full stop,
  semicolon, fullwidth semicolon, space.\<close>

definition summary_trim_chars :: ustring where
  "summary_trim_chars = [65292, 12290, 59, 65307, 32]"

definition coerce_list :: "(json \<Rightarrow> ustring) \<Rightarrow> string \<Rightarrow> (ustring \<times> json) list \<Rightarrow> (ustring \<times> json) list" where
  "coerce_list repr k obj =
     (case dget obj k of
        JArr xs \<Rightarrow> obj
      | v \<Rightarrow> dset k (JArr [JStr (py_str repr v)]) obj)"

text \<open>The loop \<open>for p in bad_..._phrases\<close> over the field \<open>k\<close>.\<close>

fun remove_phrases ::
  "string \<Rightarrow> ustring list \<Rightarrow> (ustring \<times> json) list \<Rightarrow> exn + (ustring \<times> json) list" where
  "remove_phrases k [] obj = Inr obj"
| "remove_phrases k (p # ps) obj =
     (case py_in p (py_or (dget obj k) (JStr [])) of
        Inl e \<Rightarrow> Inl e
      | Inr False \<Rightarrow> remove_phrases k ps obj
      | Inr True \<Rightarrow>
          (case py_or (dget obj k) (JStr []) of
             JStr g \<Rightarrow>
               remove_phrases k ps
                 (dset k (JStr (py_strip_chars summary_trim_chars (py_replace p [] g))) obj)
           | v \<Rightarrow> Inl (no_attribute v ''replace'')))"

definition clean_loop_entry :: "(json \<Rightarrow> ustring) \<Rightarrow> json \<Rightarrow> json" where
  "clean_loop_entry repr x =
     JStr (py_strip_chars summary_trim_chars
            (py_replace 
               [38656, 35201, 35299, 20915, 32463, 27982, 22256, 38590, 30340, 20855, 20307,
                26041, 26696]
               
               [38656, 35201, 26126, 30830, 19979, 19968, 27493, 23433, 25490, 47, 35745, 21010]
                (py_str repr x)))"

definition goal_fallback :: ustring where
  "goal_fallback = 
     [27010, 25324, 26412, 27573, 23545, 35805, 30340, 26174, 24335, 20027, 39064, 65288, 33509,
      26080, 26126, 30830, 30446, 26631, 21017, 20889, 8216, 38386, 32842, 47, 29366, 24577,
      26356, 26032, 8217, 65289]"

definition state_fallback :: ustring where
  "state_fallback = 
     [27010, 25324, 24403, 21069, 26174, 24335, 36827, 23637, 65288, 33509, 26080, 36827, 23637,
      21017, 20889, 8216, 26080, 26126, 26174, 25512, 36827, 8217, 65289]"

text \<open>\<open>_sanitize_summary\<close>.\<close>

definition sanitize_summary :: "(json \<Rightarrow> ustring) \<Rightarrow> ustring \<Rightarrow> json \<Rightarrow> exn + json" where
  "sanitize_summary repr transcript obj0 =
     (case obj0 of
        JObj d \<Rightarrow>
          (let want_help = has_help_seeking transcript;
               obj1 = setdefault ''tone_notes'' (JArr [])
                        (setdefault ''constraints'' (JArr [])
                          (setdefault ''open_loops'' (JArr [])
                            (setdefault ''state'' (JStr [])
                              (setdefault ''goal'' (JStr []) d))));
               obj2 = coerce_list repr ''tone_notes''
                        (coerce_list repr ''constraints''
                          (coerce_list repr ''open_loops'' obj1));
               cleaned =
                 (if \<not> want_help then
                    (case remove_phrases ''goal'' bad_goal_phrases obj2 of
                       Inl e \<Rightarrow> Inl e
                     | Inr obj3 \<Rightarrow>
                         (case remove_phrases ''state'' bad_state_phrases obj3 of
                            Inl e \<Rightarrow> Inl e
                          | Inr obj4 \<Rightarrow>
                              Inr (dset ''open_loops''
                                     (JArr (map (clean_loop_entry repr)
                                        (case dget obj4 ''open_loops'' of
                                           JArr xs \<Rightarrow> xs | _ \<Rightarrow> [])))
                                     obj4)))
                  else Inr obj2)
           in case cleaned of
                Inl e \<Rightarrow> Inl e
              | Inr obj5 \<Rightarrow>
                  let obj6 = (if \<not> truthy (dget obj5 ''goal'')
                              then dset ''goal'' (JStr goal_fallback) obj5 else obj5);
                      obj7 = (if \<not> truthy (dget obj6 ''state'')
                              then dset ''state'' (JStr state_fallback) obj6 else obj6)
                  in Inr (JObj obj7))
      | _ \<Rightarrow> Inr default_summary_schema)"

section \<open>Evidence scoring (routes\_gateway\_ctx.py)\<close>

text \<open>
  Python floats are modelled as exact rationals, \<open>int(time.time())\<close> is the parameter
  \<open>now\<close>. A candidate is the dictionary the three adapters build: its identifiers and
  text are strings, its timestamp an integer and its raw scores floats; \<open>metadata\<close> and
  \<open>reason\<close> may come from the retrieval response and stay dynamic.
\<close>

definition W_KEYWORD :: rat where "W_KEYWORD = 40 / 100"
definition W_VECTOR :: rat where "W_VECTOR = 40 / 100"
definition W_RECENCY :: rat where "W_RECENCY = 10 / 100"
definition W_TYPE :: rat where "W_TYPE = 10 / 100"

definition type_boost :: "ustring \<Rightarrow> rat" where
  "type_boost source_type =
     (if source_type = ustr ''current_input'' then 13 / 10
      else if source_type = ustr ''s4'' then 12 / 10
      else if source_type = ustr ''s60'' then 11 / 10
      else if source_type \<in> {ustr ''keyword'', ustr ''vector''} then 1
      else 6 / 10)"

definition source_priority :: "ustring \<Rightarrow> int" where
  "source_priority source_type =
     (if source_type = ustr ''current_input'' then 4
      else if source_type = ustr ''s4'' then 3
      else if source_type = ustr ''s60'' then 2
      else 1)"

definition recency_score :: "int \<Rightarrow> int \<Rightarrow> rat" where
  "recency_score now ts =
     (if ts = 0 then 0
      else let age = max 0 (now - ts); day = 86400 in
        if age \<le> day then 1
        else if age \<le> 7 * day then 8 / 10
        else if age \<le> 30 * day then 6 / 10
        else 3 / 10)"

text \<open>\<open>round(x, 6)\<close>: to the nearest multiple of \<open>10\<^sup>-\<^sup>6\<close>, a tie to the even one.\<close>

definition py_round6 :: "rat \<Rightarrow> rat" where
  "py_round6 x =
     (let y = x * 1000000; f = \<lfloor>y\<rfloor>; d = y - of_int f
      in of_int (if d < 1 / 2 then f
                 else if d > 1 / 2 then f + 1
                 else if even f then f else f + 1) / 1000000)"

record candidate =
  c_id :: ustring
  c_source_type :: ustring
  c_source_id :: ustring
  c_text :: ustring
  c_chunk_id :: ustring
  c_metadata :: json
  c_reason :: json
  c_ts :: int
  c_score_keyword :: rat
  c_score_vector :: rat

record score_raw =
  sr_keyword :: rat
  sr_vector :: rat
  sr_recency :: rat
  sr_type_boost :: rat

record evidence =
  e_id :: ustring
  e_source_type :: ustring
  e_source_id :: ustring
  e_text :: ustring
  e_score_raw :: score_raw
  e_score_final :: rat
  e_reason :: json
  e_ts :: int
  e_meta :: "(ustring \<times> json) list"

text \<open>Decimal digits of a natural number, for \<open>f"ev_{idx}"\<close>.\<close>

fun show_nat :: "nat \<Rightarrow> ustring" where
  "show_nat n = (if n < 10 then [48 + n] else show_nat (n div 10) @ [48 + n mod 10])"

declare show_nat.simps [simp del]

text \<open>\<open>{**base, **metadata}\<close>: the entries of \<open>metadata\<close> are written over \<open>base\<close> in
  order. Unpacking a non-empty value that is no dictionary raises \<open>TypeError\<close>.\<close>

definition unpack_over :: "(ustring \<times> json) list \<Rightarrow> json \<Rightarrow> exn + (ustring \<times> json) list" where
  "unpack_over base metadata =
     (case py_or metadata (JObj []) of
        JObj kvs \<Rightarrow> Inr (fold (\<lambda>kv d. dset_u (fst kv) (snd kv) d) kvs base)
      | v \<Rightarrow> Inl (TypeError (ustr [CHR 0x27] @ py_type_name v @ ustr [CHR 0x27]
                              @ ustr '' object is not a mapping'')))"

text \<open>The body of the scoring loop of \<open>_score_and_rank_candidates\<close>.\<close>

definition score_candidate :: "int \<Rightarrow> nat \<Rightarrow> candidate \<Rightarrow> exn + evidence" where
  "score_candidate now idx item =
     (let raw = \<lparr> sr_keyword = c_score_keyword item,
                  sr_vector = c_score_vector item,
                  sr_recency = recency_score now (c_ts item),
                  sr_type_boost = type_boost (c_source_type item) \<rparr>;
          score_final = (W_KEYWORD * sr_keyword raw) + (W_VECTOR * sr_vector raw)
                        + (W_RECENCY * sr_recency raw) + (W_TYPE * sr_type_boost raw)
      in case unpack_over
                [(ustr ''source_name'', JStr (ustr ''anchor_rag'')),
                 (ustr ''chunk_id'', JStr (c_chunk_id item)),
                 (ustr ''source_priority'', JInt (source_priority (c_source_type item)))]
                (c_metadata item) of
           Inl e \<Rightarrow> Inl e
         | Inr meta \<Rightarrow>
             Inr \<lparr> e_id = (if c_id item \<noteq> [] then c_id item else ustr ''ev_'' @ show_nat idx),
                   e_source_type = (if c_source_type item \<noteq> [] then c_source_type item
                                    else ustr ''unknown''),
                   e_source_id = c_source_id item,
                   e_text = c_text item,
                   e_score_raw = raw,
                   e_score_final = py_round6 score_final,
                   e_reason = py_or (c_reason item) (JStr []),
                   e_ts = c_ts item,
                   e_meta = meta \<rparr>)"

fun score_loop :: "int \<Rightarrow> nat \<Rightarrow> candidate list \<Rightarrow> exn + evidence list" where
  "score_loop now idx [] = Inr []"
| "score_loop now idx (item # items) =
     (case score_candidate now idx item of
        Inl e \<Rightarrow> Inl e
      | Inr out \<Rightarrow>
          (case score_loop now (Suc idx) items of
             Inl e \<Rightarrow> Inl e
           | Inr scored \<Rightarrow> Inr (out # scored)))"

text \<open>\<open>xs.sort(key=k, reverse=True)\<close>: a stable sort in descending order of the key; records
  with equal keys keep their order.\<close>

definition sort_desc :: "('a \<Rightarrow> 'k::linorder) \<Rightarrow> 'a list \<Rightarrow> 'a list" where
  "sort_desc k xs = rev (sort_key k (rev xs))"

text \<open>
  The Unicode tables behind \<open>str.lower()\<close> and the regular-expression class \<open>\w\<close>, and the
  text \<open>str()\<close> gives for a value that is no string, are parameters.
\<close>

record pyenv =
  u_repr :: "json \<Rightarrow> ustring"
  u_lower :: "ustring \<Rightarrow> ustring"
  u_is_word :: "nat \<Rightarrow> bool"

text \<open>\<open>re.sub(cls+, " ", t)\<close>: every maximal run of characters of the class becomes one
  space.\<close>

function squeeze :: "(nat \<Rightarrow> bool) \<Rightarrow> ustring \<Rightarrow> ustring" where
  "squeeze P [] = []"
| "squeeze P (c # cs) =
     (if P c then 32 # squeeze P (dropWhile P cs) else c # squeeze P cs)"
  by pat_completeness auto
termination
  by (relation "measure (\<lambda>(P, s). length s)")
     (auto simp: le_imp_less_Suc length_dropWhile_le)

definition normalize_text_for_dedupe :: "pyenv \<Rightarrow> ustring \<Rightarrow> ustring" where
  "normalize_text_for_dedupe U text =
     (let t = u_lower U (py_strip text) in
      if t = [] then []
      else py_strip (squeeze py_isspace (squeeze (\<lambda>c. \<not> u_is_word U c \<or> c = 95) t)))"

definition is_az09 :: "nat \<Rightarrow> bool" where
  "is_az09 c = ((97 \<le> c \<and> c \<le> 122) \<or> (48 \<le> c \<and> c \<le> 57))"

definition is_cjk :: "nat \<Rightarrow> bool" where
  "is_cjk c = (19968 \<le> c \<and> c \<le> 40959)"

text \<open>\<open>re.findall\<close> of the pattern for a run of \<open>[a-z0-9]\<close> or one character of
  U+4E00..U+9FFF, and \<open>nt.split()\<close>.\<close>

function find_tokens :: "ustring \<Rightarrow> ustring list" where
  "find_tokens [] = []"
| "find_tokens (c # cs) =
     (if is_az09 c then (c # takeWhile is_az09 cs) # find_tokens (dropWhile is_az09 cs)
      else if is_cjk c then [c] # find_tokens cs
      else find_tokens cs)"
  by pat_completeness auto
termination
  by (relation "measure length") (auto simp: le_imp_less_Suc length_dropWhile_le)

function split_ws :: "ustring \<Rightarrow> ustring list" where
  "split_ws [] = []"
| "split_ws (c # cs) =
     (if py_isspace c then split_ws cs
      else (c # takeWhile (\<lambda>x. \<not> py_isspace x) cs)
             # split_ws (dropWhile (\<lambda>x. \<not> py_isspace x) cs))"
  by pat_completeness auto
termination
  by (relation "measure length") (auto simp: le_imp_less_Suc length_dropWhile_le)

definition tokenize_for_jaccard :: "pyenv \<Rightarrow> ustring \<Rightarrow> ustring set" where
  "tokenize_for_jaccard U text =
     (let nt = normalize_text_for_dedupe U text in
      if nt = [] then {}
      else let tokens = find_tokens nt in
        if tokens = [] then set (split_ws nt) else set tokens)"

definition jaccard_similarity :: "ustring set \<Rightarrow> ustring set \<Rightarrow> rat" where
  "jaccard_similarity a b =
     (if a = {} \<and> b = {} then 1
      else if a = {} \<or> b = {} then 0
      else let inter = card (a \<inter> b); union = card (a \<union> b) in
        if union \<le> 0 then 0 else of_nat inter / of_nat union)"

definition dup_payload :: "evidence \<Rightarrow> json" where
  "dup_payload ev =
     JObj [(ustr ''id'', JStr (e_id ev)),
           (ustr ''source_type'', JStr (e_source_type ev)),
           (ustr ''source_id'', JStr (e_source_id ev)),
           (ustr ''chunk_id'', py_or (dget (e_meta ev) ''chunk_id'') (JStr [])),
           (ustr ''score_final'', JNum (e_score_final ev)),
           (ustr ''reason'', py_or (e_reason ev) (JStr []))]"

text \<open>\<open>list(v)\<close> on a dynamic value.\<close>

fun py_list :: "json \<Rightarrow> exn + json list" where
  "py_list (JArr xs) = Inr xs"
| "py_list (JStr s) = Inr (map (\<lambda>c. JStr [c]) s)"
| "py_list (JObj kvs) = Inr (map (\<lambda>kv. JStr (fst kv)) kvs)"
| "py_list v =
     Inl (TypeError (ustr [CHR 0x27] @ py_type_name v @ ustr [CHR 0x27]
                     @ ustr '' object is not iterable''))"

text \<open>\<open>_merge_duplicate\<close>: the record with the strictly higher score is the keeper, the
  kept one on a tie; the other one's payload is appended to the keeper's duplicates.\<close>

definition merge_duplicate :: "evidence \<Rightarrow> evidence \<Rightarrow> exn + evidence" where
  "merge_duplicate kept incoming =
     (let k_score = e_score_final kept;
          i_score = e_score_final incoming;
          keeper = (if i_score > k_score then incoming else kept);
          dup = (if i_score > k_score then kept else incoming)
      in case py_list (py_or (dget (e_meta keeper) ''duplicates'') (JArr [])) of
           Inl e \<Rightarrow> Inl e
         | Inr keeper_dups \<Rightarrow>
             Inr (keeper \<lparr> e_meta :=
                    dset ''duplicates'' (JArr (keeper_dups @ [dup_payload dup]))
                      (e_meta keeper) \<rparr>))"

text \<open>The key of the first stage: \<open>(str(source_id), str(meta.chunk_id))\<close>.\<close>

definition ev_key :: "pyenv \<Rightarrow> evidence \<Rightarrow> ustring \<times> ustring" where
  "ev_key U ev =
     (e_source_id ev, py_str (u_repr U) (py_or (dget (e_meta ev) ''chunk_id'') (JStr [])))"

text \<open>Stage 1 of \<open>_postprocess_candidates\<close>; the state is
  \<open>(by_source_chunk, key_index)\<close>.\<close>

definition dedupe_key_step ::
  "pyenv \<Rightarrow> evidence
   \<Rightarrow> evidence list \<times> (ustring \<times> ustring \<rightharpoonup> nat)
   \<Rightarrow> exn + (evidence list \<times> (ustring \<times> ustring \<rightharpoonup> nat))" where
  "dedupe_key_step U ev st =
     (case st of (by_source_chunk, key_index) \<Rightarrow>
        let ev2 = ev \<lparr> e_meta := setdefault ''duplicates'' (JArr []) (e_meta ev) \<rparr>;
            key = ev_key U ev2
        in case key_index key of
             None \<Rightarrow> Inr (by_source_chunk @ [ev2], key_index(key \<mapsto> length by_source_chunk))
           | Some idx \<Rightarrow>
               if idx < length by_source_chunk then
                 (case merge_duplicate (by_source_chunk ! idx) ev2 of
                    Inl e \<Rightarrow> Inl e
                  | Inr merged \<Rightarrow> Inr (by_source_chunk[idx := merged], key_index))
               else Inl (RuntimeError (ustr ''list index out of range'')))"

fun dedupe_key_loop ::
  "pyenv \<Rightarrow> evidence list
   \<Rightarrow> evidence list \<times> (ustring \<times> ustring \<rightharpoonup> nat)
   \<Rightarrow> exn + (evidence list \<times> (ustring \<times> ustring \<rightharpoonup> nat))" where
  "dedupe_key_loop U [] st = Inr st"
| "dedupe_key_loop U (ev # evs) st =
     (case dedupe_key_step U ev st of
        Inl e \<Rightarrow> Inl e
      | Inr st' \<Rightarrow> dedupe_key_loop U evs st')"

text \<open>The inner loop of stage 2: the index of the first seen token set that is more than 0.9
  similar.\<close>

fun first_index :: "('a \<Rightarrow> bool) \<Rightarrow> 'a list \<Rightarrow> nat option" where
  "first_index P [] = None"
| "first_index P (x # xs) = (if P x then Some 0 else map_option Suc (first_index P xs))"

text \<open>Stage 2; the state is \<open>(deduped, token_sets)\<close>.\<close>

definition dedupe_text_step ::
  "pyenv \<Rightarrow> evidence
   \<Rightarrow> evidence list \<times> ustring set list
   \<Rightarrow> exn + (evidence list \<times> ustring set list)" where
  "dedupe_text_step U ev st =
     (case st of (deduped, token_sets) \<Rightarrow>
        let cur_tokens = tokenize_for_jaccard U (e_text ev) in
        case first_index (\<lambda>seen_tokens. jaccard_similarity cur_tokens seen_tokens > 9 / 10)
               token_sets of
          None \<Rightarrow> Inr (deduped @ [ev], token_sets @ [cur_tokens])
        | Some duplicate_idx \<Rightarrow>
            if duplicate_idx < length deduped then
              (case merge_duplicate (deduped ! duplicate_idx) ev of
                 Inl e \<Rightarrow> Inl e
               | Inr merged \<Rightarrow>
                   Inr (deduped[duplicate_idx := merged],
                        token_sets[duplicate_idx := tokenize_for_jaccard U (e_text merged)]))
            else Inl (RuntimeError (ustr ''list index out of range'')))"

fun dedupe_text_loop ::
  "pyenv \<Rightarrow> evidence list
   \<Rightarrow> evidence list \<times> ustring set list
   \<Rightarrow> exn + (evidence list \<times> ustring set list)" where
  "dedupe_text_loop U [] st = Inr st"
| "dedupe_text_loop U (ev # evs) st =
     (case dedupe_text_step U ev st of
        Inl e \<Rightarrow> Inl e
      | Inr st' \<Rightarrow> dedupe_text_loop U evs st')"

text \<open>\<open>_postprocess_candidates\<close>.\<close>

definition postprocess_candidates :: "pyenv \<Rightarrow> evidence list \<Rightarrow> nat \<Rightarrow> exn + evidence list" where
  "postprocess_candidates U scored top_n =
     (case dedupe_key_loop U scored ([], Map.empty) of
        Inl e \<Rightarrow> Inl e
      | Inr (by_source_chunk, key_index) \<Rightarrow>
          (case dedupe_text_loop U by_source_chunk ([], []) of
             Inl e \<Rightarrow> Inl e
           | Inr (deduped, token_sets) \<Rightarrow>
               Inr (take top_n (sort_desc e_score_final deduped))))"

text \<open>\<open>_score_and_rank_candidates\<close>; \<open>retrieval_top_n\<close> is the configured
  \<open>RETRIEVAL_TOP_N\<close>.\<close>

definition rank_key :: "evidence \<Rightarrow> rat \<times> int \<times> rat" where
  "rank_key x = (e_score_final x, source_priority (e_source_type x), sr_recency (e_score_raw x))"

definition score_and_rank_candidates ::
  "pyenv \<Rightarrow> int \<Rightarrow> int \<Rightarrow> candidate list \<Rightarrow> int \<Rightarrow> exn + evidence list" where
  "score_and_rank_candidates U retrieval_top_n now candidates top_n =
     (case score_loop now 0 candidates of
        Inl e \<Rightarrow> Inl e
      | Inr scored \<Rightarrow>
          let n = max 1 (if top_n \<noteq> 0 then top_n else retrieval_top_n)
          in postprocess_candidates U (sort_desc rank_key scored) (nat n))"






text \<open>The number of empty token sets among the seen ones.\<close>

definition empties :: "ustring set list \<Rightarrow> nat" where
  "empties ts = length (filter (\<lambda>t. t = {}) ts)"

text \<open>Unicode tables for evaluating examples: they treat the ASCII letters and digits as
  Python does and every other character from U+0080 on as a word character without case.\<close>

definition ascii_env :: pyenv where
  "ascii_env =
     \<lparr> u_repr = (\<lambda>v. ustr ''?''),
       u_lower = map (\<lambda>c. if 65 \<le> c \<and> c \<le> 90 then c + 32 else c),
       u_is_word = (\<lambda>c. (48 \<le> c \<and> c \<le> 57) \<or> (65 \<le> c \<and> c \<le> 90) \<or> c = 95
                          \<or> (97 \<le> c \<and> c \<le> 122) \<or> 128 \<le> c) \<rparr>"

text \<open>Two scored records whose texts hold punctuation only, the second with the higher
  score, followed by an ordinary one.\<close>

definition example_blank_evidence :: "evidence list" where
  "example_blank_evidence =
     [\<lparr> e_id = ustr ''vec_0'', e_source_type = ustr ''vector'', e_source_id = ustr ''doc1'',
        e_text = ustr ''!!!'',
        e_score_raw = \<lparr> sr_keyword = 0, sr_vector = 1 / 2, sr_recency = 1, sr_type_boost = 1 \<rparr>,
        e_score_final = 2 / 5, e_reason = JStr (ustr ''vector_hit''), e_ts = 1700000000,
        e_meta = [(ustr ''chunk_id'', JStr (ustr ''c1''))] \<rparr>,
      \<lparr> e_id = ustr ''vec_1'', e_source_type = ustr ''vector'', e_source_id = ustr ''doc2'',
        e_text = ustr ''?? ...'',
        e_score_raw = \<lparr> sr_keyword = 0, sr_vector = 1, sr_recency = 1, sr_type_boost = 1 \<rparr>,
        e_score_final = 3 / 5, e_reason = JStr (ustr ''vector_hit''), e_ts = 1700000000,
        e_meta = [(ustr ''chunk_id'', JStr (ustr ''c2''))] \<rparr>,
      \<lparr> e_id = ustr ''vec_2'', e_source_type = ustr ''vector'', e_source_id = ustr ''doc3'',
        e_text = ustr ''green tea'',
        e_score_raw = \<lparr> sr_keyword = 0, sr_vector = 1 / 4, sr_recency = 1, sr_type_boost = 1 \<rparr>,
        e_score_final = 3 / 10, e_reason = JStr (ustr ''vector_hit''), e_ts = 1700000000,
        e_meta = [(ustr ''chunk_id'', JStr (ustr ''c3''))] \<rparr>]"



section \<open>Keyword resolution and cache keys (routes\_gateway\_ctx.py)\<close>

text \<open>Maximal runs of characters in U+4E00..U+9FFF (\<open>_CJK_RE.findall\<close>).\<close>

function cjk_runs :: "ustring \<Rightarrow> ustring list" where
  "cjk_runs [] = []"
| "cjk_runs (c # cs) =
     (if is_cjk c then (c # takeWhile is_cjk cs) # cjk_runs (dropWhile is_cjk cs)
      else cjk_runs cs)"
  by pat_completeness auto
termination
  by (relation "measure length") (auto simp: le_imp_less_Suc length_dropWhile_le)

definition STOP_TOKENS :: "ustring list" where
  "STOP_TOKENS =
     [[21733, 21733],
      [21733],
      [31867],
      [31070, 20195],
      [21941],
      [29483, 21674],
      [23567, 29483, 21674],
      [23453, 23453],
      [20146],
      [25265],
      [109, 117, 97],
      [21886],
      [22079, 22079]]"

definition filler_words :: "ustring list" where
  "filler_words =
     [[23601, 26159],
      [28982, 21518],
      [37027, 20010],
      [36825, 20010],
      [24590, 20040],
      [20026, 20160, 20040],
      [21487, 20197],
      [19981, 35201],
      [19981, 26159]]"

fun py_join :: "ustring \<Rightarrow> ustring list \<Rightarrow> ustring" where
  "py_join sep [] = []"
| "py_join sep [x] = x"
| "py_join sep (x # y # ys) = x @ sep @ py_join sep (y # ys)"

text \<open>The loop of \<open>_derive_kw_from_text\<close> over the runs, with the candidates found so
  far; it stops as soon as \<open>k\<close> candidates are there.\<close>

fun derive_loop :: "nat \<Rightarrow> ustring list \<Rightarrow> ustring list \<Rightarrow> ustring list" where
  "derive_loop k [] cands = cands"
| "derive_loop k (s0 # seqs) cands =
     (let s = py_strip s0 in
      if s = [] then derive_loop k seqs cands
      else if s \<in> set STOP_TOKENS then derive_loop k seqs cands
      else if length s < 2 then derive_loop k seqs cands
      else if s \<in> set filler_words then derive_loop k seqs cands
      else let cands' = (if s \<notin> set cands then cands @ [s] else cands) in
        if length cands' \<ge> k then cands' else derive_loop k seqs cands')"

definition derive_kw_from_text :: "ustring \<Rightarrow> nat \<Rightarrow> ustring" where
  "derive_kw_from_text text k =
     (let t = py_strip text in
      if t = [] then []
      else let cands = derive_loop k (cjk_runs t) [] in
        if cands = [] then [] else py_join [44] cands)"

definition EMO_MARKERS :: "ustring list" where
  "EMO_MARKERS =
     [[21733, 21733],
      [31867],
      [21941],
      [29483, 21674],
      [23567, 29483, 21674],
      [23453, 23453],
      [20146],
      [25265],
      [109, 117, 97],
      [21886],
      [22079, 22079],
      [129402],
      [128537],
      [128535],
      [128573],
      [128557],
      [129392],
      [128150],
      [128420]]"

definition is_emo_chitchat :: "ustring \<Rightarrow> bool" where
  "is_emo_chitchat text =
     (let t = py_strip text in
      if t = [] then False else (\<exists>m \<in> set EMO_MARKERS. contains_str m t))"

text \<open>\<open>s.split(",")\<close> and the order-preserving removal of duplicates.\<close>

fun split_on :: "nat \<Rightarrow> ustring \<Rightarrow> ustring list" where
  "split_on c [] = [[]]"
| "split_on c (x # xs) =
     (if x = c then [] # split_on c xs
      else (case split_on c xs of
              [] \<Rightarrow> [[x]]
            | p # ps \<Rightarrow> (x # p) # ps))"

fun uniq_loop :: "ustring list \<Rightarrow> ustring list \<Rightarrow> ustring list" where
  "uniq_loop [] uniq = uniq"
| "uniq_loop (p # ps) uniq = uniq_loop ps (if p \<notin> set uniq then uniq @ [p] else uniq)"

text \<open>\<open>_normalize_kw\<close>: the fullwidth comma, the semicolon and the fullwidth semicolon
  become commas.\<close>

definition normalize_kw :: "ustring \<Rightarrow> ustring" where
  "normalize_kw keyword =
     (let kw = py_strip keyword in
      if kw = [] then []
      else let kw1 = map (\<lambda>c. if c = 65292 \<or> c = 59 \<or> c = 65307 then 44 else c) kw;
               parts = filter (\<lambda>p. p \<noteq> []) (map py_strip (split_on 44 kw1))
           in py_join [44] (uniq_loop parts []))"

text \<open>The two fallback keywords: the emotional one (U+54E5 U+54E5, comma, U+5C0F U+732B
  U+54AA) and the neutral one (U+54E5 U+54E5, comma, U+6492 U+5A07).\<close>

definition fallback_kw :: "ustring \<Rightarrow> ustring" where
  "fallback_kw text =
     (if is_emo_chitchat text then [21733, 21733, 44, 23567, 29483, 21674]
      else [21733, 21733, 44, 25746, 23047])"

text \<open>The configuration read from the environment at import time.\<close>

record config =
  cfg_default_pv :: ustring
  cfg_ctx_max :: nat
  cfg_retrieval_top_n :: int
  cfg_profile_version :: ustring
  cfg_garbled_kw_repair :: bool
  cfg_cache_ttl :: rat
  cfg_max_cache_size :: int

text \<open>Steps 1.1 to 2 of the \<open>tools/call\<close> branch: the keyword that is looked up. The
  optional step 1.2 is skipped, the module defines no \<open>_is_garbage_kw\<close>.\<close>

definition resolve_keyword :: "config \<Rightarrow> ustring \<Rightarrow> ustring \<Rightarrow> ustring" where
  "resolve_keyword cfg keyword0 text =
     (let keyword1 =
            (if keyword0 = [] \<or> (cfg_garbled_kw_repair cfg \<and> looks_garbled_keyword keyword0)
             then derive_kw_from_text text 2
             else keyword0);
          keyword2 = (if keyword1 = [] then fallback_kw text else keyword1)
      in normalize_kw keyword2)"

definition make_cache_key :: "ustring \<Rightarrow> ustring \<Rightarrow> ustring \<Rightarrow> ustring" where
  "make_cache_key user keyword profile = user @ ustr ''||'' @ keyword @ ustr ''||'' @ profile"

section \<open>The context cache and the retrieval pipeline (routes\_gateway\_ctx.py)\<close>

text \<open>
  Everything the handler obtains from outside is a parameter: the retrieval workflow
  (\<open>_call_dify_anchor\<close>, which returns the decoded response or raises), the clock readings
  (\<open>time.time()\<close> at the cache lookup and at the cache write, \<open>int(time.time())\<close> while
  the evidence is built and scored), the measured call durations in milliseconds, and the
  number and date parsers of the Python runtime.
\<close>

record world =
  w_dify :: "ustring \<Rightarrow> ustring \<Rightarrow> exn + json"
  w_now :: rat
  w_now_int :: int
  w_now_store :: rat
  w_ms_primary :: rat
  w_ms_fallback :: rat
  w_parse_float :: "ustring \<Rightarrow> rat option"
  w_parse_int :: "ustring \<Rightarrow> int option"
  w_parse_iso :: "ustring \<Rightarrow> int option"

record outputs =
  o_result :: ustring
  o_chat_text :: ustring
  o_vector_candidates :: "json list"

text \<open>The result object of a successful retrieval and the one of the error branch.\<close>

record result_obj =
  r_keyword :: ustring
  r_keyword_primary :: ustring
  r_keyword_used :: ustring
  r_ctx :: ustring
  r_raw :: outputs
  r_evidence :: "evidence list"
  r_used_evidence_ids :: "ustring list"
  r_retrieval_profile_version :: ustring
  r_ms_dify_primary :: rat
  r_ms_dify_used :: rat
  r_cache_hit :: bool
  r_cache_miss_reason :: ustring
  r_grounding_mode :: ustring

record error_obj =
  x_keyword :: ustring
  x_keyword_primary :: ustring
  x_keyword_used :: ustring
  x_retrieval_profile_version :: ustring
  x_error :: ustring
  x_cache_hit :: bool
  x_cache_miss_reason :: ustring
  x_grounding_mode :: ustring

datatype tool_data = Retrieved result_obj | Failed error_obj

text \<open>\<open>_mcp_wrap_text\<close>: the text of \<open>content[0]\<close>, \<open>isError\<close> and \<open>data\<close>.\<close>

record tool_result =
  t_text :: ustring
  t_is_error :: bool
  t_data :: tool_data

fun data_cache_hit :: "tool_data \<Rightarrow> bool" where
  "data_cache_hit (Retrieved r) = r_cache_hit r"
| "data_cache_hit (Failed x) = x_cache_hit x"

fun data_cache_miss_reason :: "tool_data \<Rightarrow> ustring" where
  "data_cache_miss_reason (Retrieved r) = r_cache_miss_reason r"
| "data_cache_miss_reason (Failed x) = x_cache_miss_reason x"

text \<open>The cache: a dictionary from the cache key to \<open>(stored_at, ctx, res_obj)\<close>, in
  insertion order.\<close>

type_synonym cache_entry = "rat \<times> ustring \<times> result_obj"
type_synonym cache = "(ustring \<times> cache_entry) list"

definition cache_put :: "ustring \<Rightarrow> cache_entry \<Rightarrow> cache \<Rightarrow> cache" where
  "cache_put k v c =
     (if k \<in> fst ` set c
      then map (\<lambda>kv. if fst kv = k then (k, v) else kv) c
      else c @ [(k, v)])"

text \<open>\<open>min(_cache.items(), key=lambda kv: kv[1][0])[0]\<close>: the key of the first entry with
  the smallest stored-at time.\<close>

definition oldest_key :: "cache \<Rightarrow> ustring" where
  "oldest_key c =
     (case c of
        [] \<Rightarrow> []
      | kv # rest \<Rightarrow>
          fst (fold (\<lambda>kv best. if fst (snd kv) < fst (snd best) then kv else best) rest kv))"

definition evict_if_over_cap :: "config \<Rightarrow> cache \<Rightarrow> cache" where
  "evict_if_over_cap cfg c =
     (if int (length c) > cfg_max_cache_size cfg
      then filter (\<lambda>kv. fst kv \<noteq> oldest_key c) c
      else c)"

definition has_cache_for_other_profile :: "ustring \<Rightarrow> ustring \<Rightarrow> ustring \<Rightarrow> cache \<Rightarrow> bool" where
  "has_cache_for_other_profile user keyword profile_version c =
     (let prefix = user @ ustr ''||'' @ keyword @ ustr ''||'';
          legacy_key = user @ ustr ''||'' @ keyword
      in \<exists>key \<in> set (map fst c).
           key = legacy_key
           \<or> (take (length prefix) key = prefix
               \<and> drop (length prefix) key \<noteq> []
               \<and> drop (length prefix) key \<noteq> profile_version))"

text \<open>\<open>_truncate_ctx\<close>; the ellipsis is U+2026.\<close>

definition truncate_ctx :: "config \<Rightarrow> ustring \<Rightarrow> ustring" where
  "truncate_ctx cfg text =
     (let t = filter (\<lambda>c. c \<noteq> 13) (py_strip text) in
      if t = [] then []
      else if length t \<le> cfg_ctx_max cfg then t
      else rev (dropWhile py_isspace (rev (take (cfg_ctx_max cfg) t))) @ [8230])"

text \<open>\<open>_extract_outputs\<close>.\<close>

definition extract_outputs :: "pyenv \<Rightarrow> json \<Rightarrow> outputs" where
  "extract_outputs U dify_resp =
     (let outs =
            (case dify_resp of
               JObj d \<Rightarrow>
                 (case (case dget d ''data'' of
                          JObj dd \<Rightarrow> (case dget dd ''outputs'' of
                                         JObj oo \<Rightarrow> Some oo | _ \<Rightarrow> None)
                        | _ \<Rightarrow> None) of
                    Some oo \<Rightarrow> oo
                  | None \<Rightarrow> (case dget d ''outputs'' of JObj oo \<Rightarrow> oo | _ \<Rightarrow> []))
             | _ \<Rightarrow> [])
      in \<lparr> o_result = py_str (u_repr U) (py_or (dget outs ''result'') (JStr [])),
           o_chat_text = py_str (u_repr U) (py_or (dget outs ''chat_text'') (JStr [])),
           o_vector_candidates =
             (case dget outs ''vector_candidates'' of JArr vc \<Rightarrow> vc | _ \<Rightarrow> []) \<rparr>)"

definition pick_ctx :: "config \<Rightarrow> outputs \<Rightarrow> ustring" where
  "pick_ctx cfg outs =
     truncate_ctx cfg
       (if py_strip (o_result outs) \<noteq> [] then py_strip (o_result outs)
        else py_strip (o_chat_text outs))"

text \<open>The two retrieval calls of the pipeline (step 3 and 3.1).\<close>

record rag_outcome =
  g_ctx :: ustring
  g_outs :: outputs
  g_used_keyword :: ustring
  g_primary_hit_text :: ustring
  g_fallback_keyword :: ustring
  g_fallback_hit_text :: ustring
  g_ms_used :: rat

definition rag_phase ::
  "config \<Rightarrow> pyenv \<Rightarrow> world \<Rightarrow> ustring \<Rightarrow> ustring \<Rightarrow> ustring \<Rightarrow> exn + rag_outcome" where
  "rag_phase cfg U W text user primary_keyword =
     (case w_dify W primary_keyword user of
        Inl e \<Rightarrow> Inl e
      | Inr dify \<Rightarrow>
          let outs = extract_outputs U dify;
              ctx = pick_ctx cfg outs;
              first = \<lparr> g_ctx = ctx, g_outs = outs, g_used_keyword = primary_keyword,
                        g_primary_hit_text = ctx, g_fallback_keyword = [],
                        g_fallback_hit_text = [], g_ms_used = w_ms_primary W \<rparr>
          in if ctx \<noteq> [] then Inr first
             else
               let fallback_keyword = normalize_kw (fallback_kw text) in
               if fallback_keyword \<noteq> [] \<and> fallback_keyword \<noteq> primary_keyword then
                 (case w_dify W fallback_keyword user of
                    Inl e \<Rightarrow> Inl e
                  | Inr dify2 \<Rightarrow>
                      let outs2 = extract_outputs U dify2;
                          ctx2 = pick_ctx cfg outs2
                      in if ctx2 \<noteq> [] then
                           Inr \<lparr> g_ctx = ctx2, g_outs = outs2,
                                 g_used_keyword = fallback_keyword,
                                 g_primary_hit_text = ctx,
                                 g_fallback_keyword = fallback_keyword,
                                 g_fallback_hit_text = ctx2,
                                 g_ms_used = w_ms_fallback W \<rparr>
                         else Inr (first \<lparr> g_fallback_keyword := fallback_keyword \<rparr>))
               else Inr (first \<lparr> g_fallback_keyword := fallback_keyword \<rparr>))"

text \<open>\<open>float(v)\<close> and \<open>int(v)\<close> on a dynamic value; \<open>_safe_float\<close>.\<close>

definition py_float :: "world \<Rightarrow> json \<Rightarrow> rat option" where
  "py_float W v =
     (case v of
        JInt i \<Rightarrow> Some (of_int i)
      | JNum r \<Rightarrow> Some r
      | JBool b \<Rightarrow> Some (if b then 1 else 0)
      | JStr s \<Rightarrow> w_parse_float W s
      | _ \<Rightarrow> None)"

definition safe_float :: "world \<Rightarrow> json \<Rightarrow> rat \<Rightarrow> rat" where
  "safe_float W v dflt = (case py_float W v of Some r \<Rightarrow> r | None \<Rightarrow> dflt)"

definition py_int :: "world \<Rightarrow> json \<Rightarrow> exn + int" where
  "py_int W v =
     (case v of
        JInt i \<Rightarrow> Inr i
      | JNum r \<Rightarrow> Inr (if r < 0 then \<lceil>r\<rceil> else \<lfloor>r\<rfloor>)
      | JBool b \<Rightarrow> Inr (if b then 1 else 0)
      | JStr s \<Rightarrow>
          (case w_parse_int W s of
             Some i \<Rightarrow> Inr i
           | None \<Rightarrow> Inl (ValueError (ustr ''invalid literal for int() with base 10'')))
      | _ \<Rightarrow> Inl (TypeError (ustr ''int() argument must be a string or a real number'')))"

text \<open>\<open>_build_gateway_evidence\<close> followed by \<open>_adapt_keyword_candidates\<close>: the items
  carry no \<open>score\<close>, \<open>chunk_id\<close> or \<open>metadata\<close> key, so the adapter takes its
  defaults for them.\<close>

definition keyword_candidate ::
  "world \<Rightarrow> nat \<Rightarrow> ustring \<Rightarrow> ustring \<Rightarrow> ustring \<Rightarrow> candidate" where
  "keyword_candidate W index source_type keyword text =
     \<lparr> c_id = ustr ''ev_'' @ show_nat index,
       c_source_type = ustr ''keyword'',
       c_source_id = keyword,
       c_text = text,
       c_chunk_id = [],
       c_metadata = JObj [],
       c_reason = JStr (if source_type = ustr ''keyword'' then ustr ''keyword_hit''
                        else ustr ''fallback_hit''),
       c_ts = w_now_int W,
       c_score_keyword = 1,
       c_score_vector = 0 \<rparr>"

definition keyword_candidates :: "world \<Rightarrow> rag_outcome \<Rightarrow> ustring \<Rightarrow> candidate list" where
  "keyword_candidates W g primary_keyword =
     (let first = (if g_primary_hit_text g \<noteq> []
                   then [keyword_candidate W 0 (ustr ''keyword'') primary_keyword
                           (g_primary_hit_text g)]
                   else [])
      in first @
         (if g_fallback_hit_text g \<noteq> []
          then [keyword_candidate W (length first) (ustr ''fallback'') (g_fallback_keyword g)
                  (g_fallback_hit_text g)]
          else []))"

text \<open>\<open>_adapt_vector_candidates\<close>: entries that are no dictionary are skipped, the index
  counts them all the same.\<close>

fun adapt_vector_loop :: "pyenv \<Rightarrow> world \<Rightarrow> nat \<Rightarrow> json list \<Rightarrow> exn + candidate list" where
  "adapt_vector_loop U W idx [] = Inr []"
| "adapt_vector_loop U W idx (JObj item # rest) =
     (case py_int W (py_or (dget item ''ts'') (JInt (w_now_int W))) of
        Inl e \<Rightarrow> Inl e
      | Inr ts \<Rightarrow>
          (case adapt_vector_loop U W (Suc idx) rest of
             Inl e \<Rightarrow> Inl e
           | Inr unified \<Rightarrow>
               Inr (\<lparr> c_id = ustr ''vec_'' @ show_nat idx,
                      c_source_type = ustr ''vector'',
                      c_source_id =
                        py_str (u_repr U)
                          (py_or (dget item ''doc_id'')
                             (py_or (dget item ''document_id'')
                                (py_or (dget item ''id'') (JStr [])))),
                      c_text =
                        py_str (u_repr U)
                          (py_or (dget item ''text'') (py_or (dget item ''content'') (JStr []))),
                      c_chunk_id =
                        py_str (u_repr U)
                          (py_or (dget item ''chunk_id'')
                             (py_or (dget item ''segment_id'') (JStr []))),
                      c_metadata = py_or (dget item ''metadata'') (JObj []),
                      c_reason = py_or (dget item ''reason'') (JStr (ustr ''vector_hit'')),
                      c_ts = ts,
                      c_score_keyword = 0,
                      c_score_vector = safe_float W (dget item ''score'') 0 \<rparr> # unified)))"
| "adapt_vector_loop U W idx (item # rest) = adapt_vector_loop U W (Suc idx) rest"

text \<open>The inner \<open>try\<close> of the pipeline: a failure of the vector adapter degrades to no
  vector candidate.\<close>

definition vector_candidates :: "pyenv \<Rightarrow> world \<Rightarrow> outputs \<Rightarrow> candidate list" where
  "vector_candidates U W outs =
     (case adapt_vector_loop U W 0 (o_vector_candidates outs) of
        Inl e \<Rightarrow> []
      | Inr unified \<Rightarrow> unified)"

fun get_of :: "json \<Rightarrow> string \<Rightarrow> exn + json" where
  "get_of (JObj d) k = Inr (dget d k)"
| "get_of v k = Inl (no_attribute v ''get'')"

text \<open>\<open>_parse_iso_ts\<close>.\<close>

definition parse_iso_ts :: "world \<Rightarrow> ustring \<Rightarrow> int" where
  "parse_iso_ts W created_at =
     (if created_at = [] then w_now_int W
      else case w_parse_iso W created_at of Some t \<Rightarrow> t | None \<Rightarrow> w_now_int W)"

text \<open>One summary level of \<open>_build_summary_candidates\<close>; the reason is U+6765 U+81EA, the
  level in upper case, U+7684 U+4E8B U+5B9E U+7EA6 U+675F.\<close>

definition summary_candidate ::
  "pyenv \<Rightarrow> world \<Rightarrow> (ustring \<times> json) list \<Rightarrow> string \<Rightarrow> string \<Rightarrow> exn + candidate list" where
  "summary_candidate U W summaries source_type upper_name =
     (let item = py_or (dget summaries source_type) (JObj []) in
      case get_of item ''summary'' of
        Inl e \<Rightarrow> Inl e
      | Inr summary \<Rightarrow>
          if \<not> truthy summary then Inr []
          else
            Inr [\<lparr> c_id = ustr source_type @ ustr ''_0'',
                   c_source_type = ustr source_type,
                   c_source_id = ustr source_type,
                   c_text = py_str (u_repr U) summary,
                   c_chunk_id = [],
                   c_metadata =
                     JObj [(ustr ''source_name'', JStr (ustr ''memory_summary'')),
                           (ustr ''range'',
                            py_or (case item of JObj d \<Rightarrow> dget d ''range'' | _ \<Rightarrow> JNull)
                              (JArr [])),
                           (ustr ''model'',
                            py_or (case item of JObj d \<Rightarrow> dget d ''model'' | _ \<Rightarrow> JNull)
                              (JStr []))],
                   c_reason = JStr ([26469, 33258] @ ustr upper_name
                                    @ 
                                      [30340, 20107, 23454, 32422, 26463]),
                   c_ts = parse_iso_ts W
                            (py_str (u_repr U)
                               (py_or (case item of JObj d \<Rightarrow> dget d ''created_at''
                                       | _ \<Rightarrow> JNull) (JStr []))),
                   c_score_keyword = 0,
                   c_score_vector = 0 \<rparr>])"

text \<open>\<open>_build_summary_candidates\<close>; the reason of the current input is U+5F53 U+524D
  U+8F93 U+5165 U+4E8B U+5B9E U+4F18 U+5148.\<close>

definition build_summary_candidates ::
  "pyenv \<Rightarrow> world \<Rightarrow> (ustring \<times> json) list \<Rightarrow> ustring \<Rightarrow> exn + candidate list" where
  "build_summary_candidates U W summaries text =
     (let input =
            (if text \<noteq> [] then
               [\<lparr> c_id = ustr ''input_0'',
                  c_source_type = ustr ''current_input'',
                  c_source_id = ustr ''current_input'',
                  c_text = text,
                  c_chunk_id = [],
                  c_metadata = JObj [(ustr ''source_name'', JStr (ustr ''gateway_input''))],
                  c_reason = JStr 
                    [24403, 21069, 36755, 20837, 20107, 23454, 20248, 20808],
                  c_ts = w_now_int W,
                  c_score_keyword = 0,
                  c_score_vector = 0 \<rparr>]
             else [])
      in case summary_candidate U W summaries ''s4'' ''S4'' of
           Inl e \<Rightarrow> Inl e
         | Inr c4 \<Rightarrow>
             (case summary_candidate U W summaries ''s60'' ''S60'' of
                Inl e \<Rightarrow> Inl e
              | Inr c60 \<Rightarrow> Inr (input @ c4 @ c60)))"

text \<open>\<open>_compute_grounding_mode\<close>.\<close>

definition compute_grounding_mode :: "evidence list \<Rightarrow> ustring" where
  "compute_grounding_mode evidence =
     (case evidence of
        [] \<Rightarrow> ustr ''none''
      | ev0 # rest \<Rightarrow>
          let top1 = e_score_final ev0;
              valid_evidence_count = length (filter (\<lambda>ev. py_strip (e_text ev) \<noteq> []) evidence)
          in if top1 < 45 / 100 \<and> valid_evidence_count < 2 then ustr ''weak''
             else ustr ''strong'')"

text \<open>\<open>round(x, 1)\<close>.\<close>

definition py_round1 :: "rat \<Rightarrow> rat" where
  "py_round1 x =
     (let y = x * 10; f = \<lfloor>y\<rfloor>; d = y - of_int f
      in of_int (if d < 1 / 2 then f
                 else if d > 1 / 2 then f + 1
                 else if even f then f else f + 1) / 10)"

text \<open>Steps 5 and 6 of the pipeline: the evidence of a retrieval outcome.\<close>

definition evidence_phase ::
  "config \<Rightarrow> pyenv \<Rightarrow> world \<Rightarrow> (ustring \<times> json) list \<Rightarrow> ustring \<Rightarrow> ustring \<Rightarrow> rag_outcome
   \<Rightarrow> exn + evidence list" where
  "evidence_phase cfg U W summaries text primary_keyword g =
     (let keyword_unified = keyword_candidates W g primary_keyword;
          vector_unified = vector_candidates U W (g_outs g)
      in case build_summary_candidates U W summaries text of
           Inl e \<Rightarrow> Inl e
         | Inr summary_unified \<Rightarrow>
             score_and_rank_candidates U (cfg_retrieval_top_n cfg) (w_now_int W)
               (keyword_unified @ vector_unified @ summary_unified)
               (cfg_retrieval_top_n cfg))"

text \<open>
  The body of the \<open>try\<close> statement. An exception leaves it together with the cache as it
  is at that moment: nothing is rolled back. On success the result object is written to the
  cache and the oldest entry is evicted when the cache is over its cap.
\<close>

definition retrieve ::
  "config \<Rightarrow> pyenv \<Rightarrow> world \<Rightarrow> (ustring \<times> json) list \<Rightarrow> ustring \<Rightarrow> ustring \<Rightarrow> ustring
   \<Rightarrow> ustring \<Rightarrow> cache \<Rightarrow> (exn \<times> cache) + (tool_result \<times> cache)" where
  "retrieve cfg U W summaries text user primary_keyword cache_miss_reason c =
     (case rag_phase cfg U W text user primary_keyword of
        Inl e \<Rightarrow> Inl (e, c)
      | Inr g \<Rightarrow>
          (case evidence_phase cfg U W summaries text primary_keyword g of
             Inl e \<Rightarrow> Inl (e, c)
           | Inr evidence \<Rightarrow>
               let res_obj =
                     \<lparr> r_keyword = g_used_keyword g,
                       r_keyword_primary = primary_keyword,
                       r_keyword_used = g_used_keyword g,
                       r_ctx = g_ctx g,
                       r_raw = g_outs g,
                       r_evidence = evidence,
                       r_used_evidence_ids =
                         filter (\<lambda>i. i \<noteq> []) (map e_id evidence),
                       r_retrieval_profile_version = cfg_profile_version cfg,
                       r_ms_dify_primary = py_round1 (w_ms_primary W),
                       r_ms_dify_used = py_round1 (g_ms_used g),
                       r_cache_hit = False,
                       r_cache_miss_reason = cache_miss_reason,
                       r_grounding_mode = compute_grounding_mode evidence \<rparr>;
                   cache_key = make_cache_key user primary_keyword (cfg_profile_version cfg);
                   c1 = cache_put cache_key (w_now_store W, g_ctx g, res_obj) c;
                   c2 = evict_if_over_cap cfg c1
               in Inr (\<lparr> t_text = g_ctx g, t_is_error = False, t_data = Retrieved res_obj \<rparr>,
                       c2)))"

text \<open>
  The \<open>tools/call\<close> branch for the tool \<open>gateway_ctx\<close>. First the arguments are read
  and the keyword is resolved; this happens before the \<open>try\<close> statement.
\<close>

record call_args =
  a_text :: ustring
  a_user :: ustring
  a_summaries :: "(ustring \<times> json) list"
  a_primary_keyword :: ustring
  a_cache_key :: ustring

definition read_arguments :: "config \<Rightarrow> pyenv \<Rightarrow> (ustring \<times> json) list \<Rightarrow> call_args" where
  "read_arguments cfg U args =
     (let keyword0 = py_strip (py_str (u_repr U) (py_or (dget args ''keyword'') (JStr [])));
          text = py_strip (py_str (u_repr U) (py_or (dget args ''text'') (JStr [])));
          user = py_strip (py_str (u_repr U) (py_or (dget args ''user'') (JStr (ustr ''mcp''))));
          summaries = (case dget args ''summaries'' of JObj sm \<Rightarrow> sm | _ \<Rightarrow> []);
          primary_keyword = resolve_keyword cfg keyword0 text
      in \<lparr> a_text = text, a_user = user, a_summaries = summaries,
           a_primary_keyword = primary_keyword,
           a_cache_key = make_cache_key user primary_keyword (cfg_profile_version cfg) \<rparr>)"

text \<open>The cache lookup: the miss reason that is reported, and whether the entry found is
  fresh.\<close>

definition lookup_reason :: "config \<Rightarrow> world \<Rightarrow> call_args \<Rightarrow> cache \<Rightarrow> ustring" where
  "lookup_reason cfg W a c =
     (case map_of c (a_cache_key a) of
        None \<Rightarrow>
          if has_cache_for_other_profile (a_user a) (a_primary_keyword a)
               (cfg_profile_version cfg) c
          then ustr ''profile_changed'' else ustr ''not_found''
      | Some hit \<Rightarrow>
          if w_now W - fst hit > cfg_cache_ttl cfg then ustr ''expired'' else ustr ''bypassed'')"

definition fresh_hit :: "config \<Rightarrow> world \<Rightarrow> call_args \<Rightarrow> cache \<Rightarrow> cache_entry option" where
  "fresh_hit cfg W a c =
     (case map_of c (a_cache_key a) of
        None \<Rightarrow> None
      | Some hit \<Rightarrow> if w_now W - fst hit \<le> cfg_cache_ttl cfg then Some hit else None)"

text \<open>The branch of a fresh hit: the cached result object is updated in place, so the cache
  holds the updated object afterwards.\<close>

definition serve_hit ::
  "config \<Rightarrow> world \<Rightarrow> call_args \<Rightarrow> cache \<Rightarrow> cache_entry \<Rightarrow> tool_result \<times> cache" where
  "serve_hit cfg W a c hit =
     (let ctx = fst (snd hit);
          res_obj = snd (snd hit);
          res_obj' = res_obj
            \<lparr> r_retrieval_profile_version := cfg_profile_version cfg,
              r_cache_hit := True,
              r_cache_miss_reason := lookup_reason cfg W a c,
              r_keyword_primary := a_primary_keyword a,
              r_keyword_used := (if r_keyword res_obj \<noteq> [] then r_keyword res_obj
                                 else a_primary_keyword a),
              r_grounding_mode := compute_grounding_mode (r_evidence res_obj) \<rparr>
      in (\<lparr> t_text = ctx, t_is_error = False, t_data = Retrieved res_obj' \<rparr>,
          cache_put (a_cache_key a) (fst hit, ctx, res_obj') c))"

text \<open>The \<open>try\<close> statement with its \<open>except\<close> branch: the handler of the exception
  goes on with the cache as the failed body left it.\<close>

definition serve_miss ::
  "config \<Rightarrow> pyenv \<Rightarrow> world \<Rightarrow> call_args \<Rightarrow> cache \<Rightarrow> tool_result \<times> cache" where
  "serve_miss cfg U W a c =
     (case retrieve cfg U W (a_summaries a) (a_text a) (a_user a) (a_primary_keyword a)
             (lookup_reason cfg W a c) c of
        Inr (tr, c') \<Rightarrow> (tr, c')
      | Inl (e, c') \<Rightarrow>
          (\<lparr> t_text = exn_text e, t_is_error = True,
             t_data = Failed
               \<lparr> x_keyword = a_primary_keyword a,
                 x_keyword_primary = a_primary_keyword a,
                 x_keyword_used = a_primary_keyword a,
                 x_retrieval_profile_version = cfg_profile_version cfg,
                 x_error = exn_text e,
                 x_cache_hit = False,
                 x_cache_miss_reason = lookup_reason cfg W a c,
                 x_grounding_mode = compute_grounding_mode [] \<rparr> \<rparr>,
           c'))"

text \<open>An \<open>arguments\<close> value without \<open>get\<close> makes the handler itself raise.\<close>

definition gateway_ctx_call ::
  "config \<Rightarrow> pyenv \<Rightarrow> world \<Rightarrow> json \<Rightarrow> cache \<Rightarrow> exn + (tool_result \<times> cache)" where
  "gateway_ctx_call cfg U W arguments c =
     (case arguments of
        JObj args \<Rightarrow>
          let a = read_arguments cfg U args in
          (case fresh_hit cfg W a c of
             Some hit \<Rightarrow> Inr (serve_hit cfg W a c hit)
           | None \<Rightarrow> Inr (serve_miss cfg U W a c))
      | _ \<Rightarrow> Inl (no_attribute arguments ''get''))"

section \<open>JSON-RPC dispatch and the HTTP endpoint (routes\_gateway\_ctx.py)\<close>

definition SUPPORTED_VERSIONS :: "ustring list" where
  "SUPPORTED_VERSIONS =
     [ustr ''2025-11-25'', ustr ''2025-06-18'', ustr ''2025-03-26'', ustr ''2024-11-05'',
      ustr ''2024-10-07'']"

definition default_pv :: "config \<Rightarrow> ustring" where
  "default_pv cfg =
     (if cfg_default_pv cfg \<in> set SUPPORTED_VERSIONS then cfg_default_pv cfg
      else ustr ''2025-06-18'')"

text \<open>\<open>_negotiate_protocol_version\<close>; \<open>header\<close> is the request header
  \<open>MCP-Protocol-Version\<close>.\<close>

definition negotiate_protocol_version ::
  "config \<Rightarrow> pyenv \<Rightarrow> ustring option \<Rightarrow> json \<Rightarrow> exn + ustring" where
  "negotiate_protocol_version cfg U header params =
     (case get_of (py_or params (JObj [])) ''protocolVersion'' of
        Inl e \<Rightarrow> Inl e
      | Inr v \<Rightarrow>
          let pv = py_strip (py_str (u_repr U) (py_or v (JStr [])));
              hv = py_strip (case header of None \<Rightarrow> [] | Some h \<Rightarrow> h)
          in if pv \<noteq> [] \<and> pv \<in> set SUPPORTED_VERSIONS then Inr pv
             else if hv \<noteq> [] \<and> hv \<in> set SUPPORTED_VERSIONS then Inr hv
             else Inr (default_pv cfg))"

text \<open>The responses of the dispatcher. The catalog of \<open>tools/list\<close> is a constant of the
  program and stays abstract.\<close>

datatype rpc_payload =
    InitializeResult ustring
  | ToolsListResult
  | ToolCallResult tool_result

datatype rpc_response =
    RpcResult json rpc_payload
  | RpcError json int ustring

text \<open>
  \<open>_handle_jsonrpc\<close> for a message that is a dictionary. The result holds the response
  (\<open>None\<close> for no response), the protocol version stored in the request state and the
  cache; \<open>Inl\<close> is an exception that leaves the handler.
\<close>

definition handle_jsonrpc ::
  "config \<Rightarrow> pyenv \<Rightarrow> world \<Rightarrow> ustring option \<Rightarrow> (ustring \<times> json) list \<Rightarrow> cache
   \<Rightarrow> exn + (rpc_response option \<times> ustring \<times> cache)" where
  "handle_jsonrpc cfg U W header msg c =
     (let id = dget msg ''id'';
          method = (case map_of msg (ustr ''method'') of None \<Rightarrow> JStr [] | Some m \<Rightarrow> m);
          params = py_or (case map_of msg (ustr ''params'') of None \<Rightarrow> JObj [] | Some p \<Rightarrow> p)
                     (JObj []);
          is_notification = (ustr ''id'' \<notin> fst ` set msg);
          reply = (\<lambda>r. if is_notification then None else Some r)
      in case negotiate_protocol_version cfg U header params of
           Inl e \<Rightarrow> Inl e
         | Inr pv \<Rightarrow>
             if method = JStr (ustr ''initialize'') then
               Inr (reply (RpcResult id (InitializeResult pv)), pv, c)
             else if method = JStr (ustr ''tools/list'') then
               Inr (reply (RpcResult id ToolsListResult), pv, c)
             else if method \<noteq> JStr (ustr ''tools/call'') then
               Inr (reply (RpcError id (- 32601)
                             (ustr ''Method not found: '' @ py_str (u_repr U) method)), pv, c)
             else
               (case get_of params ''name'' of
                  Inl e \<Rightarrow> Inl e
                | Inr name \<Rightarrow>
                    let arguments =
                          py_or (case params of
                                   JObj pd \<Rightarrow> (case map_of pd (ustr ''arguments'') of
                                                 None \<Rightarrow> JObj [] | Some a \<Rightarrow> a)
                                 | _ \<Rightarrow> JObj [])
                            (JObj [])
                    in if name \<noteq> JStr (ustr ''gateway_ctx'') then
                         Inr (reply (RpcError id (- 32601)
                                       (ustr ''Unknown tool: '' @ py_str (u_repr U) name)), pv, c)
                       else
                         (case gateway_ctx_call cfg U W arguments c of
                            Inl e \<Rightarrow> Inl e
                          | Inr (tr, c') \<Rightarrow>
                              Inr (reply (RpcResult id (ToolCallResult tr)), pv, c'))))"

text \<open>The HTTP request as the route sees it: its method, the protocol-version header and
  the decoded body (\<open>None\<close> when the body is no JSON document).\<close>

record request =
  rq_method :: ustring
  rq_header_pv :: "ustring option"
  rq_body :: "json option"

datatype http_body =
    BodyInfo
  | BodyMessage rpc_response
  | BodyBatch "rpc_response list"

text \<open>What the route does: a response with status, body (\<open>None\<close> for an empty body) and
  the \<open>MCP-Protocol-Version\<close> header, or an exception that reaches the framework.\<close>

datatype http_outcome =
    Response nat "http_body option" ustring
  | Unhandled exn

text \<open>The loop over a batch: messages that are no dictionary are skipped; the state is the
  result list, the protocol version of the request state and the cache.\<close>

fun batch_loop ::
  "config \<Rightarrow> pyenv \<Rightarrow> world \<Rightarrow> ustring option \<Rightarrow> json list
   \<Rightarrow> rpc_response list \<times> ustring option \<times> cache
   \<Rightarrow> (exn \<times> cache) + (rpc_response list \<times> ustring option \<times> cache)" where
  "batch_loop cfg U W header [] st = Inr st"
| "batch_loop cfg U W header (JObj msg # msgs) (results, state_pv, c) =
     (case handle_jsonrpc cfg U W header msg c of
        Inl e \<Rightarrow> Inl (e, c)
      | Inr (r, pv, c') \<Rightarrow>
          batch_loop cfg U W header msgs
            (case r of None \<Rightarrow> results | Some resp \<Rightarrow> results @ [resp], Some pv, c'))"
| "batch_loop cfg U W header (m # msgs) st = batch_loop cfg U W header msgs st"

text \<open>\<open>gateway_ctx_mcp\<close>.\<close>

definition gateway_ctx_mcp ::
  "config \<Rightarrow> pyenv \<Rightarrow> world \<Rightarrow> request \<Rightarrow> cache \<Rightarrow> http_outcome \<times> cache" where
  "gateway_ctx_mcp cfg U W rq c =
     (if rq_method rq \<in> {ustr ''GET'', ustr ''OPTIONS''} then
        (Response 200 (Some BodyInfo) (default_pv cfg), c)
      else
        (case rq_body rq of
           None \<Rightarrow>
             (Response 200 (Some (BodyMessage (RpcError JNull (- 32700) (ustr ''Parse error''))))
                (default_pv cfg), c)
         | Some (JArr body) \<Rightarrow>
             (case batch_loop cfg U W (rq_header_pv rq) body ([], None, c) of
                Inl (e, c') \<Rightarrow> (Unhandled e, c')
              | Inr (results, state_pv, c') \<Rightarrow>
                  (Response 200 (Some (BodyBatch results))
                     (case state_pv of None \<Rightarrow> default_pv cfg | Some pv \<Rightarrow> pv), c'))
         | Some body \<Rightarrow>
             (case handle_jsonrpc cfg U W (rq_header_pv rq)
                     (case body of JObj msg \<Rightarrow> msg | _ \<Rightarrow> []) c of
                Inl e \<Rightarrow> (Unhandled e, c)
              | Inr (None, pv, c') \<Rightarrow> (Response 204 None pv, c')
              | Inr (Some resp, pv, c') \<Rightarrow> (Response 200 (Some (BodyMessage resp)) pv, c'))))"

text \<open>A configuration with the defaults of the program, and a retrieval workflow that always
  fails, for evaluating examples.\<close>

definition default_config :: config where
  "default_config =
     \<lparr> cfg_default_pv = ustr ''2025-06-18'', cfg_ctx_max = 400, cfg_retrieval_top_n = 3,
       cfg_profile_version = ustr ''v1.0.0'', cfg_garbled_kw_repair = True,
       cfg_cache_ttl = 20, cfg_max_cache_size = 256 \<rparr>"

definition failing_world :: "rat \<Rightarrow> world" where
  "failing_world now =
     \<lparr> w_dify = (\<lambda>keyword user. Inl (HTTPError (ustr ''503 Service Unavailable''))),
       w_now = now, w_now_int = \<lfloor>now\<rfloor>, w_now_store = now,
       w_ms_primary = 12, w_ms_fallback = 7,
       w_parse_float = (\<lambda>s. None), w_parse_int = (\<lambda>s. None), w_parse_iso = (\<lambda>s. None) \<rparr>"

text \<open>A cache with one entry written at time 0, the arguments of a request for the same
  key, and a complete \<open>tools/call\<close> message, for evaluating examples.\<close>

definition example_result_obj :: result_obj where
  "example_result_obj =
     \<lparr> r_keyword = ustr ''tea'', r_keyword_primary = ustr ''tea'', r_keyword_used = ustr ''tea'',
       r_ctx = ustr ''green tea'',
       r_raw = \<lparr> o_result = ustr ''green tea'', o_chat_text = [], o_vector_candidates = [] \<rparr>,
       r_evidence = [], r_used_evidence_ids = [],
       r_retrieval_profile_version = ustr ''v1.0.0'',
       r_ms_dify_primary = 12, r_ms_dify_used = 12,
       r_cache_hit = False, r_cache_miss_reason = ustr ''not_found'',
       r_grounding_mode = ustr ''none'' \<rparr>"

definition example_stale_cache :: cache where
  "example_stale_cache = [(ustr ''mcp||tea||v1.0.0'', (0, ustr ''green tea'', example_result_obj))]"

definition example_arguments :: "(ustring \<times> json) list" where
  "example_arguments = [(ustr ''keyword'', JStr (ustr ''tea''))]"



text \<open>Whether an element of a batch is a request, that is a dictionary with an \<open>id\<close>.\<close>

fun has_id :: "json \<Rightarrow> bool" where
  "has_id (JObj d) = (ustr ''id'' \<in> fst ` set d)"
| "has_id v = False"

section \<open>Theorems\<close>

lemma count_list_le_filter:
  "P x \<Longrightarrow> count_list s x \<le> length (filter P s)"
  by (induction s) auto

lemma count_list_strip_zero:
  assumes "count_list s x = 0"
  shows "count_list (py_strip s) x = 0"
proof -
  have "x \<notin> set s" using assms by (simp add: count_list_0_iff)
  moreover have "set (py_strip s) \<subseteq> set s"
    by (auto simp: py_strip_def dest!: set_dropWhileD)
  ultimately have "x \<notin> set (py_strip s)" by blast
  then show ?thesis by (simp add: count_list_0_iff)
qed

lemma qmark_not_separator: "QMARK \<notin> set kw_separators"
  by (simp add: QMARK_def kw_separators_def)

lemma looks_garbled_keyword_spec:
  "looks_garbled_keyword kw \<longleftrightarrow> garbled_ratio_spec (py_strip kw)"
proof -
  let ?s = "py_strip kw"
  let ?q = "count_list ?s QMARK"
  let ?t = "length (filter (\<lambda>ch. ch \<notin> set kw_separators) ?s)"
  have le: "?q \<le> ?t"
    using count_list_le_filter [of "\<lambda>ch. ch \<notin> set kw_separators" QMARK ?s]
      qmark_not_separator by simp
  show ?thesis
  proof (cases "?s = []")
    case True
    then show ?thesis by (simp add: looks_garbled_keyword_def garbled_ratio_spec_def)
  next
    case ne: False
    show ?thesis
    proof (cases "?q = 0")
      case True
      then show ?thesis using ne
        by (simp add: looks_garbled_keyword_def garbled_ratio_spec_def Let_def)
    next
      case False
      then have "0 < ?t" using le by linarith
      then show ?thesis using ne False
        by (simp add: looks_garbled_keyword_def garbled_ratio_spec_def Let_def)
    qed
  qed
qed

lemmas garbled_eval_defs =
  looks_garbled_keyword_def garbled_ratio_spec_def ustr_def py_strip_def py_isspace_def
  QMARK_def kw_separators_def

text \<open>
  C7 (as stated): the detector returns true iff the keyword string is non-empty and its ratio of
  question marks to non-separator characters is at least 0.4. This fails for a keyword with
  surrounding whitespace that is not a separator: for a question mark followed by two
  ideographic spaces (U+3000) the ratio of the string is 1/3, yet the detector, which strips
  the keyword first, answers true.
\<close>

theorem looks_garbled_keyword_unstripped_counterexample:
  "\<not> (looks_garbled_keyword [63, 12288, 12288] \<longleftrightarrow>
        garbled_ratio_spec [63, 12288, 12288])"
  by (simp add: garbled_eval_defs)

text \<open>
  C7 (amended): the detector returns true iff the keyword, after stripping leading and trailing
  whitespace, is non-empty and the ratio of question marks to non-separator characters of the
  stripped keyword is at least 0.4 (so on an already stripped keyword, as its callers pass it,
  exactly as stated); a keyword without question mark yields false, the sentinel
  \<open>??,???\<close> yields true and \<open>abc,??,d\<close> yields false.
\<close>

theorem looks_garbled_keyword_stripped_ratio:
  "(looks_garbled_keyword kw \<longleftrightarrow> garbled_ratio_spec (py_strip kw)) \<and>
   (py_strip kw = kw \<longrightarrow> (looks_garbled_keyword kw \<longleftrightarrow> garbled_ratio_spec kw)) \<and>
   (count_list kw QMARK = 0 \<longrightarrow> \<not> looks_garbled_keyword kw) \<and>
   looks_garbled_keyword (ustr ''??,???'') \<and>
   \<not> looks_garbled_keyword (ustr ''abc,??,d'')"
proof -
  have a: "looks_garbled_keyword kw \<longleftrightarrow> garbled_ratio_spec (py_strip kw)"
    by (rule looks_garbled_keyword_spec)
  have b: "count_list kw QMARK = 0 \<longrightarrow> \<not> looks_garbled_keyword kw"
    using count_list_strip_zero [of kw QMARK]
    by (simp add: looks_garbled_keyword_def Let_def)
  have c: "looks_garbled_keyword (ustr ''??,???'')"
    by (simp add: garbled_eval_defs)
  have d: "\<not> looks_garbled_keyword (ustr ''abc,??,d'')"
    by (simp add: garbled_eval_defs)
  from a b c d show ?thesis by simp
qed

theorem looks_garbled_keyword_stripped_ratio_witness:
  "py_strip (ustr ''a?'') = ustr ''a?'' \<and> looks_garbled_keyword (ustr ''a?'') \<and>
   garbled_ratio_spec (ustr ''a?'') \<and>
   count_list (ustr ''abc'') QMARK = 0 \<and> \<not> looks_garbled_keyword (ustr ''abc'')"
proof -
  have s: "py_strip (ustr ''a?'') = ustr ''a?''"
    by (simp add: ustr_def py_strip_def py_isspace_def)
  have g: "garbled_ratio_spec (ustr ''a?'')"
    by (simp add: garbled_eval_defs)
  have z: "count_list (ustr ''abc'') QMARK = 0"
    by (simp add: ustr_def QMARK_def)
  have "looks_garbled_keyword (ustr ''a?'')"
    using looks_garbled_keyword_stripped_ratio [of "ustr ''a?''"] s g by blast
  moreover have "\<not> looks_garbled_keyword (ustr ''abc'')"
    using looks_garbled_keyword_stripped_ratio [of "ustr ''abc''"] z by blast
  ultimately show ?thesis using s g z by blast
qed

lemma strip_ctrl_no_ctrl:
  "ctrl_char_count t = 0 \<Longrightarrow> strip_ctrl t = t"
  unfolding ctrl_char_count_def strip_ctrl_def
  by (induction t) (auto split: if_splits)

text \<open>
  C5: a text whose mojibake marker count is zero and which holds no C1 control character is
  returned unchanged by the repair, whatever the codecs do.
\<close>

theorem maybe_repair_mojibake_text_clean_unchanged:
  "mojibake_score t = 0 \<Longrightarrow> ctrl_char_count t = 0 \<Longrightarrow> maybe_repair_mojibake_text E t = t"
  by (simp add: maybe_repair_mojibake_text_def looks_mojibake_text_def Let_def
      strip_ctrl_no_ctrl)

theorem maybe_repair_mojibake_text_clean_unchanged_witness:
  "mojibake_score [99, 97, 102, 233] = 0 \<and> ctrl_char_count [99, 97, 102, 233] = 0 \<and>
   maybe_repair_mojibake_text ascii_codecs [99, 97, 102, 233] = [99, 97, 102, 233]"
proof -
  have m: "mojibake_score [99, 97, 102, 233] = 0"
    by (simp add: mojibake_score_def mojibake_markers_def)
  have c: "ctrl_char_count [99, 97, 102, 233] = 0"
    by (simp add: ctrl_char_count_def)
  show ?thesis
    using maybe_repair_mojibake_text_clean_unchanged [OF m c, of ascii_codecs] m c by simp
qed

lemmas sanitize_eval_defs =
  sanitize_messages_for_upstream_def sanitize_step_def strip_last_assistant_tool_fields_def
  dget_def py_or_def ustr_def py_strip_def py_isspace_def Let_def

text \<open>
  C6: after sanitization every \<open>tool\<close> message should answer a \<open>tool_calls\<close> entry
  of the nearest preceding assistant message. The code breaks this when an assistant message
  asks for two tool calls and only one is answered: the answered \<open>tool\<close> message is kept,
  and because an id is still pending at the end, the assistant message loses its
  \<open>tool_calls\<close>; the kept \<open>tool\<close> message then follows an assistant message without
  any tool call.
\<close>

theorem sanitize_messages_partial_answer_orphans_tool:
  "sanitize_messages_for_upstream
     (JArr [JObj [(ustr ''role'', JStr (ustr ''assistant'')), (ustr ''content'', JNull),
                  (ustr ''tool_calls'', JArr [JObj [(ustr ''id'', JStr (ustr ''a''))],
                                              JObj [(ustr ''id'', JStr (ustr ''b''))]])],
            JObj [(ustr ''role'', JStr (ustr ''tool'')),
                  (ustr ''tool_call_id'', JStr (ustr ''a'')),
                  (ustr ''content'', JStr (ustr ''42''))]])
   = Inr [JObj [(ustr ''role'', JStr (ustr ''assistant'')), (ustr ''content'', JNull)],
          JObj [(ustr ''role'', JStr (ustr ''tool'')),
                (ustr ''tool_call_id'', JStr (ustr ''a'')),
                (ustr ''content'', JStr (ustr ''42''))]]
   \<and> \<not> tool_threads_matched
         [JObj [(ustr ''role'', JStr (ustr ''assistant'')), (ustr ''content'', JNull)],
          JObj [(ustr ''role'', JStr (ustr ''tool'')),
                (ustr ''tool_call_id'', JStr (ustr ''a'')),
                (ustr ''content'', JStr (ustr ''42''))]] None"
  by (simp add: sanitize_eval_defs)

text \<open>The same happens when a message of another role follows the answered call.\<close>

lemma sanitize_messages_partial_answer_then_user:
  "sanitize_messages_for_upstream
     (JArr [JObj [(ustr ''role'', JStr (ustr ''assistant'')), (ustr ''content'', JNull),
                  (ustr ''tool_calls'', JArr [JObj [(ustr ''id'', JStr (ustr ''a''))],
                                              JObj [(ustr ''id'', JStr (ustr ''b''))]])],
            JObj [(ustr ''role'', JStr (ustr ''tool'')),
                  (ustr ''tool_call_id'', JStr (ustr ''a'')),
                  (ustr ''content'', JStr (ustr ''42''))],
            JObj [(ustr ''role'', JStr (ustr ''user'')), (ustr ''content'', JStr (ustr ''hi''))]])
   = Inr [JObj [(ustr ''role'', JStr (ustr ''assistant'')), (ustr ''content'', JNull)],
          JObj [(ustr ''role'', JStr (ustr ''tool'')),
                (ustr ''tool_call_id'', JStr (ustr ''a'')),
                (ustr ''content'', JStr (ustr ''42''))],
          JObj [(ustr ''role'', JStr (ustr ''user'')), (ustr ''content'', JStr (ustr ''hi''))]]"
  by (simp add: sanitize_eval_defs)

lemmas summary_eval_defs =
  sanitize_summary_def has_help_seeking_def HELP_SEEKING_HINTS_def setdefault_def dset_def
  dset_u_def   coerce_list_def dget_def py_or_def ustr_def bad_goal_phrases_def bad_state_phrases_def
  py_strip_chars_def summary_trim_chars_def clean_loop_entry_def py_str_def Let_def

text \<open>
  C9: without a help-seeking cue in the transcript, no banned phrase should remain in the
  returned goal or state. Each phrase is removed by one \<open>replace\<close>, in list order, so a
  phrase that is put together by a removal survives. Transcript: \<open>user:\<close> followed by
  U+4ECA U+5929 U+597D U+7D2F (no cue). The goal holds the second banned goal phrase nested
  inside itself; removing the inner occurrence leaves exactly that phrase as the returned goal.
\<close>

theorem sanitize_summary_nested_phrase_survives:
  "\<not> has_help_seeking [117, 115, 101, 114, 58, 32, 20170, 22825, 22909, 32047] \<and>
   sanitize_summary repr [117, 115, 101, 114, 58, 32, 20170, 22825, 22909, 32047]
     (JObj [(ustr ''goal'', JStr 
       [23547, 27714, 32463, 23547, 27714, 32463, 27982, 24110, 21161, 27982, 24110, 21161]),
            (ustr ''state'', JStr [38386, 32842])])
   = Inr (JObj [(ustr ''goal'', JStr [23547, 27714, 32463, 27982, 24110, 21161]),
                (ustr ''state'', JStr [38386, 32842]),
                (ustr ''open_loops'', JArr []), (ustr ''constraints'', JArr []),
                (ustr ''tone_notes'', JArr [])]) \<and>
   [23547, 27714, 32463, 27982, 24110, 21161] \<in> set bad_goal_phrases \<and>
   contains_str [23547, 27714, 32463, 27982, 24110, 21161] [23547, 27714, 32463, 27982, 24110, 21161]"
  by (simp add: summary_eval_defs)

text \<open>A goal that is a number makes the phrase test itself raise, although the function
  means to repair fields of the wrong type.\<close>

lemma sanitize_summary_numeric_goal_raises:
  "sanitize_summary repr [117, 115, 101, 114, 58, 32, 20170, 22825, 22909, 32047] (JObj [(ustr ''goal'', JInt 5)])
   = Inl (TypeError (ustr ''argument of type '' @ ustr [CHR 0x27] @ ustr ''int''
                     @ ustr [CHR 0x27] @ ustr '' is not iterable''))"
  by (simp add: summary_eval_defs)









lemma jaccard_similar_same_emptiness:
  "jaccard_similarity a b > 9 / 10 \<Longrightarrow> (a = {} \<longleftrightarrow> b = {})"
  by (auto simp: jaccard_similarity_def split: if_splits)

lemma jaccard_empty_empty: "jaccard_similarity {} {} = 1"
  by (simp add: jaccard_similarity_def)

lemma first_index_None: "first_index P xs = None \<Longrightarrow> x \<in> set xs \<Longrightarrow> \<not> P x"
  by (induction xs) (auto split: if_splits)

lemma first_index_Some:
  "first_index P xs = Some i \<Longrightarrow> i < length xs \<and> P (xs ! i)"
  by (induction xs arbitrary: i) (auto split: if_splits)

lemma merge_duplicate_cases:
  assumes "merge_duplicate kept incoming = Inr merged"
  shows "\<exists>m. (e_score_final incoming \<le> e_score_final kept \<and> merged = kept \<lparr> e_meta := m \<rparr>)
           \<or> (e_score_final incoming > e_score_final kept \<and> merged = incoming \<lparr> e_meta := m \<rparr>)"
  using assms
  by (auto simp: merge_duplicate_def Let_def split: sum.splits if_splits)

lemma empties_update:
  "i < length ts \<Longrightarrow> (t = {} \<longleftrightarrow> ts ! i = {}) \<Longrightarrow> empties (ts[i := t]) = empties ts"
  unfolding empties_def
  by (induction ts arbitrary: i) (auto split: nat.splits)

lemma empties_zero: "(\<forall>x \<in> set ts. x \<noteq> {}) \<Longrightarrow> empties ts = 0"
  unfolding empties_def by (induction ts) auto

lemma dedupe_text_step_inv:
  assumes step: "dedupe_text_step U ev (deduped, token_sets) = Inr (deduped', token_sets')"
    and ts: "token_sets = map (\<lambda>e. tokenize_for_jaccard U (e_text e)) deduped"
    and em: "empties token_sets \<le> 1"
  shows "token_sets' = map (\<lambda>e. tokenize_for_jaccard U (e_text e)) deduped'
         \<and> empties token_sets' \<le> 1"
proof -
  let ?tok = "\<lambda>e. tokenize_for_jaccard U (e_text e)"
  let ?cur = "?tok ev"
  let ?P = "\<lambda>seen. jaccard_similarity ?cur seen > 9 / 10"
  show ?thesis
  proof (cases "first_index ?P token_sets")
    case None
    with step have d: "deduped' = deduped @ [ev]" and t: "token_sets' = token_sets @ [?cur]"
      by (auto simp: dedupe_text_step_def Let_def)
    have "empties token_sets' \<le> 1"
    proof (cases "?cur = {}")
      case True
      have "\<forall>x \<in> set token_sets. x \<noteq> {}"
      proof
        fix x assume x: "x \<in> set token_sets"
        have "\<not> ?P x" using first_index_None [OF None x] .
        then show "x \<noteq> {}" using True by (auto simp: jaccard_similarity_def)
      qed
      then have "empties token_sets = 0" by (rule empties_zero)
      then show ?thesis using t True by (simp add: empties_def)
    next
      case False
      then show ?thesis using t em by (simp add: empties_def)
    qed
    then show ?thesis using d t ts by simp
  next
    case (Some i)
    then have i: "i < length token_sets" and Pi: "?P (token_sets ! i)"
      using first_index_Some by fast+
    have il: "i < length deduped" using i ts by simp
    from step Some il obtain merged where
      m: "merge_duplicate (deduped ! i) ev = Inr merged"
      and d: "deduped' = deduped[i := merged]"
      and t: "token_sets' = token_sets[i := ?tok merged]"
      by (auto simp: dedupe_text_step_def Let_def split: sum.splits)
    from merge_duplicate_cases [OF m]
    have mt: "e_text merged = e_text (deduped ! i) \<or> e_text merged = e_text ev"
      by auto
    have same: "?cur = {} \<longleftrightarrow> token_sets ! i = {}"
      using jaccard_similar_same_emptiness [OF Pi] .
    have ti: "token_sets ! i = ?tok (deduped ! i)" using ts il by simp
    have "?tok merged = {} \<longleftrightarrow> token_sets ! i = {}"
      using mt same ti by auto
    then have "empties token_sets' = empties token_sets"
      using t i empties_update by simp
    moreover have "token_sets' = map ?tok deduped'"
      using d t ts by (simp add: map_update)
    ultimately show ?thesis using em by simp
  qed
qed

lemma dedupe_text_loop_inv:
  "dedupe_text_loop U evs (deduped, token_sets) = Inr (deduped', token_sets') \<Longrightarrow>
   token_sets = map (\<lambda>e. tokenize_for_jaccard U (e_text e)) deduped \<Longrightarrow>
   empties token_sets \<le> 1 \<Longrightarrow>
   token_sets' = map (\<lambda>e. tokenize_for_jaccard U (e_text e)) deduped'
   \<and> empties token_sets' \<le> 1"
proof (induction evs arbitrary: deduped token_sets)
  case Nil
  then show ?case by auto
next
  case (Cons ev evs)
  from Cons.prems(1) obtain d1 t1 where
    s: "dedupe_text_step U ev (deduped, token_sets) = Inr (d1, t1)"
    and l: "dedupe_text_loop U evs (d1, t1) = Inr (deduped', token_sets')"
    by (auto split: sum.splits)
  from dedupe_text_step_inv [OF s Cons.prems(2) Cons.prems(3)]
  have a: "t1 = map (\<lambda>e. tokenize_for_jaccard U (e_text e)) d1" and b: "empties t1 \<le> 1"
    by blast+
  show ?case using Cons.IH [OF l a b] .
qed

lemma filter_take_length: "length (filter P (take n xs)) \<le> length (filter P xs)"
proof -
  have "length (filter P xs) = length (filter P (take n xs)) + length (filter P (drop n xs))"
    by (metis append_take_drop_id filter_append length_append)
  then show ?thesis by simp
qed

lemma filter_sort_desc_length:
  "length (filter P (sort_desc k xs)) = length (filter P xs)"
  by (simp add: sort_desc_def filter_sort rev_filter [symmetric])

lemmas tok_eval_defs = tokenize_for_jaccard_def normalize_text_for_dedupe_def ascii_env_def
  py_strip_def py_isspace_def is_az09_def is_cjk_def ustr_def Let_def

lemmas post_eval_defs = score_and_rank_candidates_def postprocess_candidates_def
  dedupe_key_step_def dedupe_text_step_def merge_duplicate_def ev_key_def py_str_def
  setdefault_def dset_def dset_u_def dget_def py_or_def dup_payload_def sort_desc_def
  rank_key_def less_eq_prod_def less_prod_def
  jaccard_similarity_def card_insert_if Int_insert_left

lemma example_blank_evidence_ids:
  "\<exists>out. postprocess_candidates ascii_env example_blank_evidence 3 = Inr out
         \<and> map e_id out = [ustr ''vec_1'', ustr ''vec_2'']"
  by (simp add: example_blank_evidence_def post_eval_defs tok_eval_defs)

text \<open>
  C10: the Jaccard similarity of two empty token sets is 1, so a record whose text has no
  token is merged into the kept record without token, and at most one surviving record of the
  postprocessing has a text that tokenizes to the empty set.
\<close>

theorem postprocess_at_most_one_empty:
  "jaccard_similarity {} {} = 1 \<and>
   (postprocess_candidates U scored top_n = Inr out \<longrightarrow>
    length (filter (\<lambda>e. tokenize_for_jaccard U (e_text e) = {}) out) \<le> 1)"
proof -
  let ?E = "\<lambda>e. tokenize_for_jaccard U (e_text e) = {}"
  {
    assume p: "postprocess_candidates U scored top_n = Inr out"
    then obtain bsc kidx deduped token_sets where
      l: "dedupe_text_loop U bsc ([], []) = Inr (deduped, token_sets)"
      and o: "out = take top_n (sort_desc e_score_final deduped)"
      by (auto simp: postprocess_candidates_def split: sum.splits prod.splits)
    have "empties [] \<le> 1" by (simp add: empties_def)
    then have "token_sets = map (\<lambda>e. tokenize_for_jaccard U (e_text e)) deduped
               \<and> empties token_sets \<le> 1"
      by (intro dedupe_text_loop_inv [OF l]) simp_all
    then have t: "token_sets = map (\<lambda>e. tokenize_for_jaccard U (e_text e)) deduped"
      and e: "empties token_sets \<le> 1"
      by blast+
    have "length (filter ?E deduped) = empties token_sets"
      unfolding empties_def t by (simp add: filter_map comp_def)
    then have "length (filter ?E out) \<le> 1"
      using e o filter_take_length [of ?E top_n "sort_desc e_score_final deduped"]
      by (simp add: filter_sort_desc_length)
  }
  then show ?thesis using jaccard_empty_empty by blast
qed

theorem postprocess_at_most_one_empty_witness:
  "postprocess_candidates ascii_env example_blank_evidence 3
     = Inr (projr (postprocess_candidates ascii_env example_blank_evidence 3)) \<and>
   map e_id (projr (postprocess_candidates ascii_env example_blank_evidence 3))
     = [ustr ''vec_1'', ustr ''vec_2''] \<and>
   length (filter (\<lambda>e. tokenize_for_jaccard ascii_env (e_text e) = {})
             (projr (postprocess_candidates ascii_env example_blank_evidence 3))) \<le> 1"
proof -
  from example_blank_evidence_ids obtain out where
    o: "postprocess_candidates ascii_env example_blank_evidence 3 = Inr out"
    and ids: "map e_id out = [ustr ''vec_1'', ustr ''vec_2'']"
    by (elim exE conjE)
  from postprocess_at_most_one_empty [of ascii_env example_blank_evidence 3 out] o
  have "length (filter (\<lambda>e. tokenize_for_jaccard ascii_env (e_text e) = {}) out) \<le> 1"
    by simp
  then show ?thesis using o ids by simp
qed

lemma ustr_dup_ne_chunk: "ustr ''duplicates'' \<noteq> ustr ''chunk_id''"
  by (simp add: ustr_def)


lemma map_of_snoc_other:
  "k' \<noteq> k \<Longrightarrow> map_of (d @ [(k, v)]) k' = map_of d k'"
  by (induction d) auto



lemma dget_setdefault_duplicates:
  "dget (setdefault ''duplicates'' v d) ''chunk_id'' = dget d ''chunk_id''"
  using ustr_dup_ne_chunk
  by (simp add: dget_def setdefault_def map_of_snoc_other del: map_of_append)


lemma ev_key_meta_setdefault:
  "ev_key U (ev \<lparr> e_meta := setdefault ''duplicates'' v (e_meta ev) \<rparr>) = ev_key U ev"
  by (simp add: ev_key_def dget_setdefault_duplicates)


























lemmas call_eval_defs =
  gateway_ctx_call_def read_arguments_def resolve_keyword_def normalize_kw_def
  make_cache_key_def fresh_hit_def lookup_reason_def serve_miss_def serve_hit_def retrieve_def
  rag_phase_def failing_world_def default_config_def ascii_env_def
  example_arguments_def example_stale_cache_def
  looks_garbled_keyword_def QMARK_def kw_separators_def
  py_str_def py_or_def dget_def ustr_def py_strip_def py_isspace_def Let_def
  compute_grounding_mode_def

lemma retrieve_raise_cache:
  "retrieve cfg U W summaries text user kw reason c = Inl (e, c') \<Longrightarrow> c' = c"
  by (auto simp: retrieve_def Let_def split: sum.splits)



lemma stale_call_evaluates:
  "gateway_ctx_call default_config ascii_env (failing_world 100) (JObj example_arguments)
     example_stale_cache
   = Inr (\<lparr> t_text = ustr ''503 Service Unavailable'', t_is_error = True,
            t_data = Failed
              \<lparr> x_keyword = ustr ''tea'', x_keyword_primary = ustr ''tea'',
                x_keyword_used = ustr ''tea'', x_retrieval_profile_version = ustr ''v1.0.0'',
                x_error = ustr ''503 Service Unavailable'', x_cache_hit = False,
                x_cache_miss_reason = ustr ''expired'', x_grounding_mode = ustr ''none'' \<rparr> \<rparr>,
          example_stale_cache)"
  by (simp add: call_eval_defs)

lemma example_key:
  "a_cache_key (read_arguments default_config ascii_env example_arguments)
     = ustr ''mcp||tea||v1.0.0''"
  by (simp add: call_eval_defs)

text \<open>
  C3 (as stated): a request that finds an entry older than the TTL is a miss with reason
  \<open>expired\<close>, and the stale entry is evicted at read time. The entry is not evicted: here it
  was written at time 0, the request for the same key arrives at time 100 (TTL 20), the
  retrieval fails, and afterwards the cache still maps the key to the stale entry.
\<close>

theorem stale_entry_not_evicted_counterexample:
  "map_of example_stale_cache (ustr ''mcp||tea||v1.0.0'')
     = Some (0, ustr ''green tea'', example_result_obj) \<and>
   w_now (failing_world 100) - 0 > cfg_cache_ttl default_config \<and>
   data_cache_miss_reason (t_data (fst (projr
     (gateway_ctx_call default_config ascii_env (failing_world 100) (JObj example_arguments)
        example_stale_cache)))) = ustr ''expired'' \<and>
   map_of (snd (projr
     (gateway_ctx_call default_config ascii_env (failing_world 100) (JObj example_arguments)
        example_stale_cache))) (ustr ''mcp||tea||v1.0.0'')
     = Some (0, ustr ''green tea'', example_result_obj)"
  by (simp add: stale_call_evaluates)
    (simp add: example_stale_cache_def failing_world_def default_config_def)

text \<open>
  C3 (amended): a request that finds an entry older than the TTL under its cache key is
  treated as a cache miss: the result reports no cache hit and the miss reason \<open>expired\<close>.
  The stale entry is not removed at read time: when the retrieval fails the cache is left as
  it was, and when it succeeds the entry is overwritten by the new result (after which the
  oldest entry is evicted if the cache is over its cap).
\<close>

theorem stale_entry_is_expired_miss:
  assumes hit: "map_of c (a_cache_key (read_arguments cfg U args)) = Some hit"
    and stale: "w_now W - fst hit > cfg_cache_ttl cfg"
  shows "\<exists>tr c'. gateway_ctx_call cfg U W (JObj args) c = Inr (tr, c')
           \<and> \<not> data_cache_hit (t_data tr)
           \<and> data_cache_miss_reason (t_data tr) = ustr ''expired''
           \<and> (t_is_error tr \<longrightarrow> c' = c)
           \<and> (\<forall>r. t_data tr = Retrieved r \<longrightarrow>
                 c' = evict_if_over_cap cfg
                        (cache_put (a_cache_key (read_arguments cfg U args))
                           (w_now_store W, t_text tr, r) c))"
proof -
  let ?a = "read_arguments cfg U args"
  have fh: "fresh_hit cfg W ?a c = None"
    using hit stale by (simp add: fresh_hit_def)
  have lr: "lookup_reason cfg W ?a c = ustr ''expired''"
    using hit stale by (simp add: lookup_reason_def)
  have call: "gateway_ctx_call cfg U W (JObj args) c = Inr (serve_miss cfg U W ?a c)"
    using fh by (simp add: gateway_ctx_call_def Let_def)
  show ?thesis
  proof (cases "retrieve cfg U W (a_summaries ?a) (a_text ?a) (a_user ?a)
                  (a_primary_keyword ?a) (ustr ''expired'') c")
    case (Inl ec)
    obtain e c0 where ec: "ec = (e, c0)" by (cases ec)
    have "c0 = c" using Inl ec retrieve_raise_cache by fast
    then show ?thesis
      using call Inl ec lr by (simp add: serve_miss_def)
  next
    case (Inr trc)
    obtain tr c1 where trc: "trc = (tr, c1)" by (cases trc)
    from Inr trc show ?thesis
      using call lr
      by (auto simp: serve_miss_def retrieve_def read_arguments_def Let_def
          split: sum.splits)
  qed
qed

theorem stale_entry_is_expired_miss_witness:
  "map_of example_stale_cache
     (a_cache_key (read_arguments default_config ascii_env example_arguments))
     = Some (0, ustr ''green tea'', example_result_obj) \<and>
   w_now (failing_world 100) - fst (0 :: rat, ustr ''green tea'', example_result_obj)
     > cfg_cache_ttl default_config \<and>
   data_cache_miss_reason (t_data (fst (projr
     (gateway_ctx_call default_config ascii_env (failing_world 100) (JObj example_arguments)
        example_stale_cache)))) = ustr ''expired''"
proof -
  have h: "map_of example_stale_cache
             (a_cache_key (read_arguments default_config ascii_env example_arguments))
           = Some (0, ustr ''green tea'', example_result_obj)"
    by (simp add: example_key) (simp add: example_stale_cache_def)
  have s: "w_now (failing_world 100) - fst (0 :: rat, ustr ''green tea'', example_result_obj)
             > cfg_cache_ttl default_config"
    by (simp add: failing_world_def default_config_def)
  from stale_entry_is_expired_miss [OF h s]
  obtain tr c' where
    "gateway_ctx_call default_config ascii_env (failing_world 100) (JObj example_arguments)
       example_stale_cache = Inr (tr, c')"
    and "data_cache_miss_reason (t_data tr) = ustr ''expired''"
    by blast
  then show ?thesis using h s by simp
qed



text \<open>A message without \<open>id\<close> gets no response, a message with \<open>id\<close> gets one, and a
  single notification is answered with status 204 and no body.\<close>

lemma handle_jsonrpc_notification_silent:
  "handle_jsonrpc cfg U W header msg c = Inr (r, pv, c') \<Longrightarrow>
   (r = None \<longleftrightarrow> ustr ''id'' \<notin> fst ` set msg)"
  by (auto simp: handle_jsonrpc_def Let_def split: sum.splits if_splits prod.splits)

lemma gateway_ctx_mcp_single_notification:
  assumes "rq_method rq = ustr ''POST''" "rq_body rq = Some (JObj msg)"
    and "ustr ''id'' \<notin> fst ` set msg"
    and "handle_jsonrpc cfg U W (rq_header_pv rq) msg c = Inr (r, pv, c')"
  shows "gateway_ctx_mcp cfg U W rq c = (Response 204 None pv, c')"
proof -
  have "r = None" using handle_jsonrpc_notification_silent [OF assms(4)] assms(3) by simp
  then show ?thesis
    using assms by (simp add: gateway_ctx_mcp_def ustr_def)
qed

text \<open>The loop over a batch appends one response for every request of the batch, in the
  order of the batch, and none for the other elements.\<close>

lemma batch_loop_results:
  "batch_loop cfg U W header msgs st = Inr st' \<Longrightarrow>
   \<exists>new. fst st' = fst st @ new \<and> length new = length (filter has_id msgs)"
proof (induction cfg U W header msgs st rule: batch_loop.induct)
  case (1 cfg U W header st)
  then show ?case by simp
next
  case (2 cfg U W header msg msgs results state_pv c)
  from "2.prems" obtain r pv c1 where
    h: "handle_jsonrpc cfg U W header msg c = Inr (r, pv, c1)"
    and l: "batch_loop cfg U W header msgs
              (case r of None \<Rightarrow> results | Some resp \<Rightarrow> results @ [resp], Some pv, c1) = Inr st'"
    by (auto split: sum.splits)
  from "2.IH" [OF h refl refl l] obtain new where
    n: "fst st' = (case r of None \<Rightarrow> results | Some resp \<Rightarrow> results @ [resp]) @ new"
       "length new = length (filter has_id msgs)"
    by auto
  show ?case
  proof (cases r)
    case None
    then have "ustr ''id'' \<notin> fst ` set msg"
      using handle_jsonrpc_notification_silent [OF h] by simp
    then show ?thesis using n None by simp
  next
    case (Some resp)
    then have "ustr ''id'' \<in> fst ` set msg"
      using handle_jsonrpc_notification_silent [OF h] by simp
    then show ?thesis using n Some by simp
  qed
qed simp_all

text \<open>
  C8: a batch that holds notifications only should be answered like a single notification,
  with status 204 and no body. The batch branch of the route has no such case: for a batch of
  two notifications it answers with status 200 and the empty array as body.
\<close>

theorem gateway_ctx_mcp_notification_batch_returns_empty_array:
  "gateway_ctx_mcp cfg U W
     \<lparr> rq_method = ustr ''POST'', rq_header_pv = None,
       rq_body = Some (JArr [JObj [(ustr ''jsonrpc'', JStr (ustr ''2.0'')),
                                   (ustr ''method'', JStr (ustr ''initialize''))],
                             JObj [(ustr ''jsonrpc'', JStr (ustr ''2.0'')),
                                   (ustr ''method'',
                                    JStr (ustr ''notifications/initialized''))]]) \<rparr>
     c
   = (Response 200 (Some (BodyBatch [])) (default_pv cfg), c)"
  by (simp add: gateway_ctx_mcp_def handle_jsonrpc_def negotiate_protocol_version_def
      py_or_def dget_def py_str_def py_strip_def ustr_def Let_def)

end
